theory Spec2Isabelle
  imports Complex_Main
begin

section \<open>Data model (app/models.py, app/schemas.py)\<close>

text \<open>
  A \<open>datetime\<close> is a naive UTC timestamp, counted in microseconds since
  \<open>datetime.min\<close> (0001-01-01T00:00:00); Python and the store compare timestamps
  chronologically, which is the order of these integers.

  A Python \<open>str\<close> is a \<open>string\<close>; a character stands for the code point of the same
  number, so the model covers the code points up to U+00FF.

  The JSON values of \<open>game_metadata\<close> (\<open>Dict[str, Any]\<close>) are a datatype; a dict is an
  association list in insertion order.
\<close>

type_synonym datetime = int

datatype json = JNull | JBool bool | JInt int | JStr string
  | JArr "json list" | JObj "(string \<times> json) list"

type_synonym metadata = "(string \<times> json) list"

record game =
  g_id :: int
  g_name :: string
  g_description :: "string option"
  g_api_key_hash :: string
  g_created_at :: datetime

record score =
  s_id :: int
  s_game_id :: int
  s_player_name :: string
  s_score :: int
  s_game_metadata :: "metadata option"
  s_created_at :: datetime

text \<open>The persistent store: the two tables, rows in insertion order.\<close>

record db =
  games :: "game list"
  scores :: "score list"

text \<open>
  What an endpoint raises instead of returning: \<open>HTTPException(status_code, detail)\<close>, or the
  framework's rejection of a request whose body or query parameters fail validation
  (one entry per failing field).
\<close>

datatype violation = MinLength | MaxLength | GreaterEqual | LessEqual | ValueError string

datatype http_error =
  HTTPException nat string
  | RequestValidationError "(string \<times> violation) list"

abbreviation Unauthorized :: http_error where
  "Unauthorized \<equiv> HTTPException 401 ''Invalid API key''"

record game_create =
  gc_name :: string
  gc_description :: "string option"

record game_response =
  gr_id :: int
  gr_name :: string
  gr_description :: "string option"
  gr_api_key :: string
  gr_created_at :: datetime


section \<open>Credentials (app/security.py)\<close>

text \<open>
  \<open>hashlib.pbkdf2_hmac(hash_name, password, salt, iterations)\<close> belongs to Python's library,
  not to the repository: it is a parameter of everything that hashes a key. Bytes are
  characters; \<open>api_key.encode('utf-8')\<close> is the key itself.
\<close>

type_synonym kdf = "string \<Rightarrow> string \<Rightarrow> string \<Rightarrow> nat \<Rightarrow> string"

definition hex_digit :: "nat \<Rightarrow> char" where
  "hex_digit n = ''0123456789abcdef'' ! n"

definition bytes_hex :: "string \<Rightarrow> string" where
  "bytes_hex bs =
     concat (map (\<lambda>b. [hex_digit (of_char b div 16), hex_digit (of_char b mod 16)]) bs)"

text \<open>\<open>secrets.token_urlsafe(32)\<close> is random: the token it returns is an argument.\<close>

definition generate_api_key :: "string \<Rightarrow> string" where
  "generate_api_key token = ''game_'' @ token"

definition hash_api_key :: "kdf \<Rightarrow> string \<Rightarrow> string" where
  "hash_api_key pbkdf2_hmac api_key =
     (let salt = ''highscore_api_salt_2025'';
          hashed = pbkdf2_hmac ''sha256'' api_key salt 100000
      in bytes_hex hashed)"

definition verify_api_key :: "kdf \<Rightarrow> string \<Rightarrow> string \<Rightarrow> bool" where
  "verify_api_key pbkdf2_hmac plain_key hashed_key \<longleftrightarrow>
     hash_api_key pbkdf2_hmac plain_key = hashed_key"

text \<open>The loop of \<open>get_game_by_api_key\<close> over \<open>db.query(Game).all()\<close>.\<close>

fun scan_games :: "kdf \<Rightarrow> string \<Rightarrow> game list \<Rightarrow> game option" where
  "scan_games pbkdf2_hmac api_key [] = None"
| "scan_games pbkdf2_hmac api_key (g # gs) =
     (if verify_api_key pbkdf2_hmac api_key (g_api_key_hash g) then Some g
      else scan_games pbkdf2_hmac api_key gs)"

definition get_game_by_api_key :: "kdf \<Rightarrow> db \<Rightarrow> string \<Rightarrow> game option" where
  "get_game_by_api_key pbkdf2_hmac d api_key = scan_games pbkdf2_hmac api_key (games d)"


section \<open>Game registration (app/routes.py, create_game)\<close>

text \<open>
  \<open>db.add; db.commit; db.refresh\<close> for a new row of \<open>games\<close>. The commit raises when the
  storage fails (\<open>fault\<close> is then the text of the exception, \<open>None\<close> when the storage works)
  and when the new row breaks the \<open>unique=True\<close> constraint of \<open>api_key_hash\<close>. Otherwise the
  row gets the next id and the timestamp \<open>default=datetime.utcnow\<close>.
\<close>

definition insert_game ::
  "string option \<Rightarrow> datetime \<Rightarrow> string \<Rightarrow> string option \<Rightarrow> string \<Rightarrow> db \<Rightarrow> string + (game \<times> db)"
where
  "insert_game fault now name description api_key_hash d =
     (case fault of
        Some msg \<Rightarrow> Inl msg
      | None \<Rightarrow>
          if api_key_hash \<in> set (map g_api_key_hash (games d))
          then Inl ''UNIQUE constraint failed: games.api_key_hash''
          else
            let db_game = \<lparr>g_id = int (length (games d)) + 1, g_name = name,
                           g_description = description, g_api_key_hash = api_key_hash,
                           g_created_at = now\<rparr>
            in Inr (db_game, d\<lparr>games := games d @ [db_game]\<rparr>))"

text \<open>
  The endpoint returns its response and the store it leaves. The \<open>except Exception\<close> branch
  rolls back and raises \<open>HTTPException(500, f"Failed to create game: {str(e)}")\<close>.
\<close>

definition create_game ::
  "kdf \<Rightarrow> string \<Rightarrow> string option \<Rightarrow> datetime \<Rightarrow> game_create \<Rightarrow> db
     \<Rightarrow> (http_error + game_response) \<times> db"
where
  "create_game pbkdf2_hmac token fault now game d =
     (let api_key = generate_api_key token;
          api_key_hash = hash_api_key pbkdf2_hmac api_key
      in case insert_game fault now (gc_name game) (gc_description game) api_key_hash d of
           Inr (db_game, d') \<Rightarrow>
             (Inr \<lparr>gr_id = g_id db_game, gr_name = g_name db_game,
                   gr_description = g_description db_game, gr_api_key = api_key,
                   gr_created_at = g_created_at db_game\<rparr>, d')
         | Inl e \<Rightarrow> (Inl (HTTPException 500 (''Failed to create game: '' @ e)), d))"

text \<open>The handler that app/main.py installs for every exception no endpoint catches.\<close>

definition global_exception_handler :: "string \<Rightarrow> nat \<times> (string \<times> string) list" where
  "global_exception_handler exc =
     (500, [(''detail'', ''An internal error occurred. Please try again later.''),
            (''type'', ''internal_error'')])"



section \<open>Validation (app/schemas.py, app/config.py)\<close>

text \<open>The defaults of app/config.py.\<close>

definition max_player_name_length :: nat where "max_player_name_length = 50"
definition max_score_value :: int where "max_score_value = 999999999"
definition max_metadata_size :: nat where "max_metadata_size = 10240"

text \<open>
  Python's character classes on the code points up to U+00FF: \<open>str.strip()\<close> and the
  pattern \<open>\s\<close> take the same whitespace; \<open>\w\<close> is an alphanumeric character or the
  underscore.
\<close>

definition isspace :: "char \<Rightarrow> bool" where
  "isspace c =
     (let n = (of_char c :: nat)
      in (9 \<le> n \<and> n \<le> 13) \<or> (28 \<le> n \<and> n \<le> 32) \<or> n = 133 \<or> n = 160)"

definition isalnum :: "char \<Rightarrow> bool" where
  "isalnum c =
     (let n = (of_char c :: nat)
      in (48 \<le> n \<and> n \<le> 57) \<or> (65 \<le> n \<and> n \<le> 90) \<or> (97 \<le> n \<and> n \<le> 122)
         \<or> n = 170 \<or> n = 178 \<or> n = 179 \<or> n = 181 \<or> n = 185 \<or> n = 186
         \<or> (188 \<le> n \<and> n \<le> 190) \<or> (192 \<le> n \<and> n \<le> 214)
         \<or> (216 \<le> n \<and> n \<le> 246) \<or> (248 \<le> n \<and> n \<le> 255))"

definition word_char :: "char \<Rightarrow> bool" where
  "word_char c \<longleftrightarrow> isalnum c \<or> c = CHR ''_''"

definition strip :: "string \<Rightarrow> string" where
  "strip v = rev (dropWhile isspace (rev (dropWhile isspace v)))"

text \<open>
  \<open>re.match(r'^[...]+$', v)\<close> for a character class: one or more characters of the class
  from the start of \<open>v\<close>, up to a position where \<open>$\<close> holds. Python's \<open>$\<close> holds at the
  end of the string and also just before a newline that ends the string.
\<close>

definition re_match_class :: "(char \<Rightarrow> bool) \<Rightarrow> string \<Rightarrow> bool" where
  "re_match_class cls v \<longleftrightarrow>
     v \<noteq> [] \<and>
     (list_all cls v \<or>
      (last v = CHR 0x0A \<and> butlast v \<noteq> [] \<and> list_all cls (butlast v)))"

text \<open>The class \<open>[\w\s\-._@]\<close> of player names and the class \<open>[\w\-_]\<close> of metadata keys.\<close>

definition player_name_char :: "char \<Rightarrow> bool" where
  "player_name_char c \<longleftrightarrow> word_char c \<or> isspace c \<or> c \<in> set ''-._@''"

definition metadata_key_char :: "char \<Rightarrow> bool" where
  "metadata_key_char c \<longleftrightarrow> word_char c \<or> c \<in> set ''-_''"

record score_create =
  sc_player_name :: string
  sc_score :: int
  sc_game_metadata :: "metadata option"

text \<open>The field validators of \<open>ScoreCreate\<close>: \<open>Inl\<close> is the message of the \<open>ValueError\<close>.\<close>

definition validate_player_name :: "string \<Rightarrow> string + string" where
  "validate_player_name v0 =
     (let v = strip v0
      in if v = [] then Inl ''Player name cannot be empty or whitespace only''
         else if \<not> re_match_class player_name_char v
         then Inl ''Player name contains invalid characters. Allowed: letters, numbers, spaces, -, _, ., @''
         else Inr v)"

text \<open>The loop over \<open>v.keys()\<close>; the keys of a parsed JSON object are strings.\<close>

fun check_keys :: "string list \<Rightarrow> string option" where
  "check_keys [] = None"
| "check_keys (key # keys) =
     (if \<not> re_match_class metadata_key_char key
      then Some (''Invalid metadata key: '' @ key @ ''. Only alphanumeric, -, _ allowed'')
      else check_keys keys)"

text \<open>\<open>json.dumps\<close> belongs to Python's library: it is a parameter.\<close>

definition validate_metadata ::
  "(metadata \<Rightarrow> string) \<Rightarrow> metadata option \<Rightarrow> string + metadata option"
where
  "validate_metadata json_dumps v =
     (case v of
        None \<Rightarrow> Inr None
      | Some m \<Rightarrow>
          let metadata_str = json_dumps m
          in if length metadata_str > max_metadata_size
             then Inl ''Metadata too large. Maximum size is 10240 bytes''
             else (case check_keys (map fst m) of
                     Some msg \<Rightarrow> Inl msg
                   | None \<Rightarrow> Inr (Some m)))"

text \<open>
  A field's \<open>Field(...)\<close> bounds are checked on the value as sent; the field validator runs
  after them, on a value that passed.
\<close>

definition field_player_name :: "string \<Rightarrow> violation + string" where
  "field_player_name v =
     (if length v < 1 then Inl MinLength
      else if length v > max_player_name_length then Inl MaxLength
      else (case validate_player_name v of Inl msg \<Rightarrow> Inl (ValueError msg) | Inr w \<Rightarrow> Inr w))"

definition field_score :: "int \<Rightarrow> violation + int" where
  "field_score v =
     (if v < 0 then Inl GreaterEqual
      else if v > max_score_value then Inl LessEqual
      else Inr v)"

definition field_game_metadata ::
  "(metadata \<Rightarrow> string) \<Rightarrow> metadata option \<Rightarrow> violation + metadata option"
where
  "field_game_metadata json_dumps v =
     (case validate_metadata json_dumps v of Inl msg \<Rightarrow> Inl (ValueError msg) | Inr w \<Rightarrow> Inr w)"

definition field_errors :: "string \<Rightarrow> violation + 'a \<Rightarrow> (string \<times> violation) list" where
  "field_errors name r = (case r of Inl e \<Rightarrow> [(name, e)] | Inr _ \<Rightarrow> [])"

text \<open>
  Building a \<open>ScoreCreate\<close> from a request body: every field is validated, and the body is
  rejected when any field failed.
\<close>

definition ScoreCreate :: "(metadata \<Rightarrow> string) \<Rightarrow> score_create \<Rightarrow> http_error + score_create" where
  "ScoreCreate json_dumps body =
     (let p = field_player_name (sc_player_name body);
          s = field_score (sc_score body);
          m = field_game_metadata json_dumps (sc_game_metadata body)
      in case (p, s, m) of
           (Inr player_name, Inr score, Inr game_metadata) \<Rightarrow>
             Inr \<lparr>sc_player_name = player_name, sc_score = score,
                   sc_game_metadata = game_metadata\<rparr>
         | _ \<Rightarrow>
             Inl (RequestValidationError
                    (field_errors ''player_name'' p @ field_errors ''score'' s
                     @ field_errors ''game_metadata'' m)))"


section \<open>Score submission (app/routes.py, submit_score)\<close>

text \<open>
  The endpoint gets a validated \<open>ScoreCreate\<close>. The new row takes the next id and the
  timestamp \<open>default=datetime.utcnow\<close>, here \<open>now\<close>.
\<close>

definition submit_score ::
  "kdf \<Rightarrow> datetime \<Rightarrow> score_create \<Rightarrow> string \<Rightarrow> db \<Rightarrow> (http_error + score) \<times> db"
where
  "submit_score pbkdf2_hmac now score_data api_key d =
     (case get_game_by_api_key pbkdf2_hmac d api_key of
        None \<Rightarrow> (Inl Unauthorized, d)
      | Some game \<Rightarrow>
          let db_score = \<lparr>s_id = int (length (scores d)) + 1, s_game_id = g_id game,
                          s_player_name = sc_player_name score_data,
                          s_score = sc_score score_data,
                          s_game_metadata = sc_game_metadata score_data,
                          s_created_at = now\<rparr>
          in (Inr db_score, d\<lparr>scores := scores d @ [db_score]\<rparr>))"

text \<open>
  \<open>POST /scores\<close>: the framework builds \<open>score_data\<close> from the body before it calls the
  endpoint, and answers with the validation error when it cannot.
\<close>

definition post_scores ::
  "kdf \<Rightarrow> (metadata \<Rightarrow> string) \<Rightarrow> datetime \<Rightarrow> score_create \<Rightarrow> string \<Rightarrow> db
     \<Rightarrow> (http_error + score) \<times> db"
where
  "post_scores pbkdf2_hmac json_dumps now body api_key d =
     (case ScoreCreate json_dumps body of
        Inl e \<Rightarrow> (Inl e, d)
      | Inr score_data \<Rightarrow> submit_score pbkdf2_hmac now score_data api_key d)"


text \<open>A run of submissions with one key, served in order; each comes with its time.\<close>

fun submit_all ::
  "kdf \<Rightarrow> (metadata \<Rightarrow> string) \<Rightarrow> string \<Rightarrow> (datetime \<times> score_create) list \<Rightarrow> db \<Rightarrow> db"
where
  "submit_all pbkdf2_hmac json_dumps api_key [] d = d"
| "submit_all pbkdf2_hmac json_dumps api_key ((now, body) # rest) d =
     submit_all pbkdf2_hmac json_dumps api_key rest
       (snd (post_scores pbkdf2_hmac json_dumps now body api_key d))"


section \<open>Leaderboard (app/routes.py, get_date_filter and get_leaderboard)\<close>

definition usec_per_day :: int where
  "usec_per_day = 86400000000"

definition timedelta_days :: "int \<Rightarrow> int" where
  "timedelta_days n = n * usec_per_day"

text \<open>\<open>now.replace(hour=0, minute=0, second=0, microsecond=0)\<close>\<close>

definition replace_midnight :: "datetime \<Rightarrow> datetime" where
  "replace_midnight now = now - now mod usec_per_day"

text \<open>
  \<open>now\<close> is the value of \<open>datetime.utcnow()\<close>. An empty string is falsy, so \<open>not period\<close>
  covers it.
\<close>

definition get_date_filter :: "datetime \<Rightarrow> string option \<Rightarrow> datetime option" where
  "get_date_filter now period =
     (case period of
        None \<Rightarrow> None
      | Some p \<Rightarrow>
          if p = [] then None
          else if p = ''today'' then Some (replace_midnight now)
          else if p = ''week'' then Some (now - timedelta_days 7)
          else if p = ''month'' then Some (now - timedelta_days 30)
          else if p = ''year'' then Some (now - timedelta_days 365)
          else None)"

text \<open>
  The \<open>filter\<close> clauses of both leaderboard queries: the tenant, and the window when there
  is one.
\<close>

definition in_scope :: "int \<Rightarrow> datetime option \<Rightarrow> score \<Rightarrow> bool" where
  "in_scope gid date_filter s \<longleftrightarrow>
     s_game_id s = gid \<and> (case date_filter of None \<Rightarrow> True | Some t \<Rightarrow> s_created_at s \<ge> t)"

record lb_row =
  row_player_name :: string
  row_best_score :: int
  row_latest_date :: datetime

text \<open>
  \<open>group_by(player_name)\<close> with the two \<open>func.max\<close> columns: one row per player name. Every
  group has a row of the table in it, so both maxima exist.
\<close>

definition group_by_player :: "score list \<Rightarrow> lb_row list" where
  "group_by_player ss =
     map (\<lambda>p. let mine = filter (\<lambda>s. s_player_name s = p) ss
              in \<lparr>row_player_name = p,
                  row_best_score = Max (set (map s_score mine)),
                  row_latest_date = Max (set (map s_created_at mine))\<rparr>)
         (remdups (map s_player_name ss))"

text \<open>
  \<open>order_by(desc('best_score'))\<close>. The query names no second key, so the order of rows of
  equal score is the engine's; the model keeps them in the order of the groups.
\<close>

definition order_by_desc :: "lb_row list \<Rightarrow> lb_row list" where
  "order_by_desc rows = sort_key (\<lambda>r. - row_best_score r) rows"

definition leaderboard_query :: "int \<Rightarrow> datetime option \<Rightarrow> int \<Rightarrow> db \<Rightarrow> lb_row list" where
  "leaderboard_query gid date_filter limit d =
     take (nat limit) (order_by_desc (group_by_player (filter (in_scope gid date_filter) (scores d))))"

text \<open>\<open>func.count(func.distinct(player_name))\<close> under the same filters.\<close>

definition total_query :: "int \<Rightarrow> datetime option \<Rightarrow> db \<Rightarrow> int" where
  "total_query gid date_filter d =
     int (length (remdups (map s_player_name (filter (in_scope gid date_filter) (scores d)))))"

record leaderboard_entry =
  le_rank :: int
  le_player_name :: string
  le_score :: int
  le_created_at :: datetime

record leaderboard_response =
  lr_game_id :: int
  lr_game_name :: string
  lr_entries :: "leaderboard_entry list"
  lr_total_entries :: int
  lr_period :: "string option"

text \<open>The comprehension over \<open>enumerate(results)\<close>.\<close>

definition build_entries :: "lb_row list \<Rightarrow> leaderboard_entry list" where
  "build_entries results =
     map (\<lambda>(idx, result). \<lparr>le_rank = int idx + 1, le_player_name = row_player_name result,
                            le_score = row_best_score result,
                            le_created_at = row_latest_date result\<rparr>)
         (enumerate 0 results)"

definition get_leaderboard ::
  "kdf \<Rightarrow> datetime \<Rightarrow> int \<Rightarrow> string option \<Rightarrow> string \<Rightarrow> db \<Rightarrow> http_error + leaderboard_response"
where
  "get_leaderboard pbkdf2_hmac now limit period api_key d =
     (case get_game_by_api_key pbkdf2_hmac d api_key of
        None \<Rightarrow> Inl Unauthorized
      | Some game \<Rightarrow>
          let date_filter = get_date_filter now period;
              results = leaderboard_query (g_id game) date_filter limit d;
              entries = build_entries results;
              total_entries = total_query (g_id game) date_filter d
          in Inr \<lparr>lr_game_id = g_id game, lr_game_name = g_name game, lr_entries = entries,
                  lr_total_entries = total_entries, lr_period = period\<rparr>)"


section \<open>Player statistics (app/routes.py, get_player_stats)\<close>

text \<open>
  \<open>average_score\<close> is a Python float. The division of two integers and \<open>round(x, 2)\<close> are
  Python's: they are parameters, over any type \<open>'f\<close> of floats.
\<close>

record 'f player_stats =
  ps_player_name :: string
  ps_game_id :: int
  ps_total_scores :: int
  ps_best_score :: int
  ps_average_score :: 'f
  ps_worst_score :: int
  ps_rank :: "int option"
  ps_first_played :: datetime
  ps_last_played :: datetime

definition player_rows :: "int \<Rightarrow> string \<Rightarrow> db \<Rightarrow> score list" where
  "player_rows gid player_name d =
     filter (\<lambda>s. s_game_id s = gid \<and> s_player_name s = player_name) (scores d)"

definition rank_query :: "int \<Rightarrow> string \<Rightarrow> int \<Rightarrow> db \<Rightarrow> int" where
  "rank_query gid player_name best_score d =
     int (length (remdups (map s_player_name
       (filter (\<lambda>s. s_score s > best_score)
         (filter (\<lambda>s. s_game_id s = gid \<and> s_player_name s \<noteq> player_name) (scores d))))))"

definition player_not_found :: "string \<Rightarrow> http_error" where
  "player_not_found player_name =
     HTTPException 404 (''Player '' @ [CHR 0x27] @ player_name @ [CHR 0x27] @ '' not found'')"

text \<open>
  \<open>max\<close> and \<open>min\<close> are taken of lists that the \<open>if not player_scores\<close> above them has
  shown to be non-empty.
\<close>

definition get_player_stats ::
  "kdf \<Rightarrow> (int \<Rightarrow> int \<Rightarrow> 'f) \<Rightarrow> ('f \<Rightarrow> int \<Rightarrow> 'f) \<Rightarrow> string \<Rightarrow> string \<Rightarrow> db
     \<Rightarrow> http_error + 'f player_stats"
where
  "get_player_stats pbkdf2_hmac truediv round_f player_name api_key d =
     (case get_game_by_api_key pbkdf2_hmac d api_key of
        None \<Rightarrow> Inl Unauthorized
      | Some game \<Rightarrow>
          let player_scores = player_rows (g_id game) player_name d
          in if player_scores = [] then Inl (player_not_found player_name)
             else
               let scores_l = map s_score player_scores;
                   best_score = Max (set scores_l);
                   worst_score = Min (set scores_l);
                   average_score = truediv (sum_list scores_l) (int (length scores_l));
                   better_players = rank_query (g_id game) player_name best_score d;
                   rank = better_players + 1;
                   dates = map s_created_at player_scores;
                   first_played = Min (set dates);
                   last_played = Max (set dates)
               in Inr \<lparr>ps_player_name = player_name, ps_game_id = g_id game,
                       ps_total_scores = int (length player_scores),
                       ps_best_score = best_score,
                       ps_average_score = round_f average_score 2,
                       ps_worst_score = worst_score, ps_rank = Some rank,
                       ps_first_played = first_played, ps_last_played = last_played\<rparr>)"


section \<open>Library functions and a store for the examples\<close>

text \<open>
  The examples need values for the library functions that the definitions above take as
  parameters. The key derivation of the examples ignores the hash name and the rounds.
\<close>

definition sample_kdf :: kdf where
  "sample_kdf hash_name password salt iterations = password @ salt"

text \<open>
  \<open>json.dumps\<close> with its defaults (\<open>ensure_ascii=True\<close>, separators \<open>', '\<close> and \<open>': '\<close>) on
  the JSON values of the model.
\<close>

fun digits :: "nat \<Rightarrow> string" where
  "digits n =
     (if n < 10 then [''0123456789'' ! n]
      else digits (n div 10) @ [''0123456789'' ! (n mod 10)])"

declare digits.simps [simp del]

definition int_repr :: "int \<Rightarrow> string" where
  "int_repr i = (if i < 0 then CHR ''-'' # digits (nat (- i)) else digits (nat i))"

definition escape_char :: "char \<Rightarrow> string" where
  "escape_char c =
     (let n = (of_char c :: nat)
      in if c = CHR 0x22 then [CHR 0x5C, CHR 0x22]
         else if c = CHR 0x5C then [CHR 0x5C, CHR 0x5C]
         else if c = CHR 0x0A then [CHR 0x5C, CHR ''n'']
         else if c = CHR 0x0D then [CHR 0x5C, CHR ''r'']
         else if c = CHR 0x09 then [CHR 0x5C, CHR ''t'']
         else if c = CHR 0x08 then [CHR 0x5C, CHR ''b'']
         else if c = CHR 0x0C then [CHR 0x5C, CHR ''f'']
         else if 32 \<le> n \<and> n \<le> 126 then [c]
         else [CHR 0x5C, CHR ''u'', CHR ''0'', CHR ''0'', hex_digit (n div 16), hex_digit (n mod 16)])"

definition encode_string :: "string \<Rightarrow> string" where
  "encode_string s = [CHR 0x22] @ concat (map escape_char s) @ [CHR 0x22]"

fun join :: "string \<Rightarrow> string list \<Rightarrow> string" where
  "join sep [] = []"
| "join sep [x] = x"
| "join sep (x # y # ys) = x @ sep @ join sep (y # ys)"

fun dumps :: "json \<Rightarrow> string" where
  "dumps JNull = ''null''"
| "dumps (JBool b) = (if b then ''true'' else ''false'')"
| "dumps (JInt i) = int_repr i"
| "dumps (JStr s) = encode_string s"
| "dumps (JArr xs) = ''['' @ join '', '' (map dumps xs) @ '']''"
| "dumps (JObj kvs) =
     ''{'' @ join '', '' (map (\<lambda>kv. encode_string (fst kv) @ '': '' @ dumps (snd kv)) kvs) @ ''}''"

definition py_json_dumps :: "metadata \<Rightarrow> string" where
  "py_json_dumps m = dumps (JObj m)"

text \<open>
  Exact rational arithmetic stands for the floats of the examples, whose averages have at
  most two decimals.
\<close>

definition sample_truediv :: "int \<Rightarrow> int \<Rightarrow> rat" where
  "sample_truediv a b = of_int a / of_int b"

definition sample_round :: "rat \<Rightarrow> int \<Rightarrow> rat" where
  "sample_round x ndigits = of_int (round (x * 10 ^ nat ndigits)) / 10 ^ nat ndigits"

text \<open>
  The store of the examples: two games are registered, and scores are posted to both. The
  first game gets the four scores of simple\_test.py. Times are microseconds after
  2025-01-01T00:00:00, the day 739251 after \<open>datetime.min\<close>.
\<close>

definition t0 :: datetime where
  "t0 = 739251 * usec_per_day"

definition db0 :: db where
  "db0 = \<lparr>games = [], scores = []\<rparr>"

definition register :: "string \<Rightarrow> datetime \<Rightarrow> string \<Rightarrow> db \<Rightarrow> db" where
  "register token now name d =
     snd (create_game sample_kdf token None now \<lparr>gc_name = name, gc_description = None\<rparr> d)"

definition post :: "string \<Rightarrow> datetime \<Rightarrow> string \<Rightarrow> int \<Rightarrow> db \<Rightarrow> db" where
  "post api_key now player v d =
     snd (post_scores sample_kdf py_json_dumps now
            \<lparr>sc_player_name = player, sc_score = v,
             sc_game_metadata = Some [(''test'', JBool True)]\<rparr> api_key d)"

definition example_db :: db where
  "example_db =
     (post ''game_T'' (t0 + 50) ''Alice'' 1200
      \<circ> post ''game_U'' (t0 + 40) ''Zed'' 5000
      \<circ> post ''game_T'' (t0 + 30) ''Charlie'' 900
      \<circ> post ''game_T'' (t0 + 20) ''Bob'' 1500
      \<circ> post ''game_T'' (t0 + 10) '' Alice '' 1000
      \<circ> register ''U'' (t0 + 2) ''Other Game''
      \<circ> register ''T'' (t0 + 1) ''Test Game'') db0"


text \<open>One more player then ties with Alice for the best score 1200.\<close>

definition tie_db :: db where
  "tie_db = post ''game_T'' (t0 + 60) ''Dana'' 1200 example_db"

text \<open>The rows that these requests leave in the two tables.\<close>

definition game_T :: game where
  "game_T = \<lparr>g_id = 1, g_name = ''Test Game'', g_description = None,
        g_api_key_hash = ''67616d655f546869676873636f72655f6170695f73616c745f32303235'',
        g_created_at = t0 + 1\<rparr>"

definition game_U :: game where
  "game_U = \<lparr>g_id = 2, g_name = ''Other Game'', g_description = None,
        g_api_key_hash = ''67616d655f556869676873636f72655f6170695f73616c745f32303235'',
        g_created_at = t0 + 2\<rparr>"

definition row :: "int \<Rightarrow> int \<Rightarrow> string \<Rightarrow> int \<Rightarrow> datetime \<Rightarrow> score" where
  "row i g p v t = \<lparr>s_id = i, s_game_id = g, s_player_name = p, s_score = v,
      s_game_metadata = Some [(''test'', JBool True)], s_created_at = t\<rparr>"


section \<open>The examples, evaluated\<close>

lemmas validation_defs =
  ScoreCreate_def field_player_name_def field_score_def field_game_metadata_def field_errors_def
  validate_player_name_def validate_metadata_def strip_def isspace_def re_match_class_def
  player_name_char_def metadata_key_char_def word_char_def isalnum_def
  max_player_name_length_def max_score_value_def max_metadata_size_def

lemmas dumps_defs = py_json_dumps_def encode_string_def escape_char_def int_repr_def

lemma hash_T:
  "hash_api_key sample_kdf ''game_T'' = ''67616d655f546869676873636f72655f6170695f73616c745f32303235''"
  by (simp add: hash_api_key_def sample_kdf_def bytes_hex_def hex_digit_def)

lemma hash_U:
  "hash_api_key sample_kdf ''game_U'' = ''67616d655f556869676873636f72655f6170695f73616c745f32303235''"
  by (simp add: hash_api_key_def sample_kdf_def bytes_hex_def hex_digit_def)

lemma games_registered:
  "(register ''U'' (t0 + 2) ''Other Game'' \<circ> register ''T'' (t0 + 1) ''Test Game'') db0
     = \<lparr>games = [game_T, game_U], scores = []\<rparr>"
  by (simp add: register_def db0_def create_game_def insert_game_def generate_api_key_def
        hash_T hash_U game_T_def game_U_def Let_def)

lemma resolve_T:
  "games d = [game_T, game_U] \<Longrightarrow> get_game_by_api_key sample_kdf d ''game_T'' = Some game_T"
  by (simp add: get_game_by_api_key_def verify_api_key_def hash_T game_T_def)

lemma resolve_U:
  "games d = [game_T, game_U] \<Longrightarrow> get_game_by_api_key sample_kdf d ''game_U'' = Some game_U"
  by (simp add: get_game_by_api_key_def verify_api_key_def hash_U game_T_def game_U_def)

lemma valid_body:
  "p \<in> {''Alice'', '' Alice '', ''Bob'', ''Charlie'', ''Zed'', ''Dana''} \<Longrightarrow> 0 \<le> v \<Longrightarrow> v \<le> 5000 \<Longrightarrow>
   ScoreCreate py_json_dumps
       \<lparr>sc_player_name = p, sc_score = v, sc_game_metadata = Some [(''test'', JBool True)]\<rparr>
     = Inr \<lparr>sc_player_name = strip p, sc_score = v,
            sc_game_metadata = Some [(''test'', JBool True)]\<rparr>"
  by (auto simp add: validation_defs dumps_defs)

lemma strip_ex:
  "strip '' Alice '' = ''Alice''" "strip ''Alice'' = ''Alice''" "strip ''Bob'' = ''Bob''"
  "strip ''Charlie'' = ''Charlie''" "strip ''Zed'' = ''Zed''" "strip ''Dana'' = ''Dana''"
  by (simp_all add: strip_def isspace_def)

lemma post_T:
  "games d = [game_T, game_U] \<Longrightarrow> p \<in> {''Alice'', '' Alice '', ''Bob'', ''Charlie'', ''Zed'', ''Dana''}
   \<Longrightarrow> 0 \<le> v \<Longrightarrow> v \<le> 5000 \<Longrightarrow>
   post ''game_T'' t p v d
     = d\<lparr>scores := scores d @ [row (int (length (scores d)) + 1) 1 (strip p) v t]\<rparr>"
  by (simp add: post_def post_scores_def valid_body submit_score_def resolve_T row_def
        game_T_def Let_def del: insert_iff)

lemma post_U:
  "games d = [game_T, game_U] \<Longrightarrow> p \<in> {''Alice'', '' Alice '', ''Bob'', ''Charlie'', ''Zed'', ''Dana''}
   \<Longrightarrow> 0 \<le> v \<Longrightarrow> v \<le> 5000 \<Longrightarrow>
   post ''game_U'' t p v d
     = d\<lparr>scores := scores d @ [row (int (length (scores d)) + 1) 2 (strip p) v t]\<rparr>"
  by (simp add: post_def post_scores_def valid_body submit_score_def resolve_U row_def
        game_U_def Let_def del: insert_iff)

lemma example_db_eq:
  "example_db = \<lparr>games = [game_T, game_U],
      scores = [row 1 1 ''Alice'' 1000 (t0 + 10), row 2 1 ''Bob'' 1500 (t0 + 20),
                row 3 1 ''Charlie'' 900 (t0 + 30), row 4 2 ''Zed'' 5000 (t0 + 40),
                row 5 1 ''Alice'' 1200 (t0 + 50)]\<rparr>"
  unfolding example_db_def o_apply games_registered[unfolded o_apply]
  by (simp add: post_T post_U strip_ex)

lemma tie_db_eq:
  "tie_db = \<lparr>games = [game_T, game_U],
      scores = [row 1 1 ''Alice'' 1000 (t0 + 10), row 2 1 ''Bob'' 1500 (t0 + 20),
                row 3 1 ''Charlie'' 900 (t0 + 30), row 4 2 ''Zed'' 5000 (t0 + 40),
                row 5 1 ''Alice'' 1200 (t0 + 50), row 6 1 ''Dana'' 1200 (t0 + 60)]\<rparr>"
  unfolding tie_db_def example_db_eq
  by (simp add: post_T strip_ex)


section \<open>The scan as a search\<close>

lemma scan_games_find:
  "scan_games k key gs = find (\<lambda>g. g_api_key_hash g = hash_api_key k key) gs"
  by (induction gs) (auto simp: verify_api_key_def)

section \<open>Credentials: resolving a key\<close>

lemma insert_game_Inr:
  "insert_game fault now name description h d = Inr (g, d') \<Longrightarrow>
     h \<notin> g_api_key_hash ` set (games d) \<and> g_api_key_hash g = h \<and> games d' = games d @ [g]
     \<and> scores d' = scores d \<and> g_id g = int (length (games d)) + 1"
  by (auto simp: insert_game_def Let_def split: option.splits if_splits)

lemma find_append_last:
  "\<forall>x\<in>set xs. \<not> P x \<Longrightarrow> P y \<Longrightarrow> find P (xs @ [y]) = Some y"
  by (induction xs) auto

lemma find_distinct_key:
  "distinct (map f xs) \<Longrightarrow> x \<in> set xs \<Longrightarrow> find (\<lambda>y. f y = f x) xs = Some x"
  by (induction xs) (auto simp: rev_image_eqI)

text \<open>
  C5. Resolving a key is a linear scan that returns the first game whose stored hash is the
  hash of the presented key, and nothing exactly when no stored hash matches. Stored hashes
  are unique (the constraint of the table, which registration keeps), so the key whose hash a
  game stores resolves to that game; and the key that a successful registration returns
  resolves, in the store that the registration leaves, to the game it has just added.
\<close>

theorem resolve_issued_key:
  "get_game_by_api_key pbkdf2_hmac d k
     = find (\<lambda>g. g_api_key_hash g = hash_api_key pbkdf2_hmac k) (games d)
   \<and> (get_game_by_api_key pbkdf2_hmac d k = None
        \<longleftrightarrow> (\<forall>g \<in> set (games d). g_api_key_hash g \<noteq> hash_api_key pbkdf2_hmac k))
   \<and> (\<forall>i < length (games d).
         g_api_key_hash (games d ! i) = hash_api_key pbkdf2_hmac k
         \<and> (\<forall>j < i. g_api_key_hash (games d ! j) \<noteq> hash_api_key pbkdf2_hmac k)
         \<longrightarrow> get_game_by_api_key pbkdf2_hmac d k = Some (games d ! i))
   \<and> (distinct (map g_api_key_hash (games d)) \<and> g \<in> set (games d)
        \<and> g_api_key_hash g = hash_api_key pbkdf2_hmac k
        \<longrightarrow> get_game_by_api_key pbkdf2_hmac d k = Some g)
   \<and> (create_game pbkdf2_hmac token fault now gc d = (Inr r, d')
        \<longrightarrow> (\<exists>g'. games d' = games d @ [g'] \<and> g_id g' = gr_id r
                 \<and> g_api_key_hash g' = hash_api_key pbkdf2_hmac (gr_api_key r)
                 \<and> get_game_by_api_key pbkdf2_hmac d' (gr_api_key r) = Some g'
                 \<and> (distinct (map g_api_key_hash (games d))
                      \<longrightarrow> distinct (map g_api_key_hash (games d')))))"
proof (intro conjI allI impI)
  let ?h = "hash_api_key pbkdf2_hmac k"
  let ?P = "\<lambda>g. g_api_key_hash g = ?h"
  show eq: "get_game_by_api_key pbkdf2_hmac d k = find ?P (games d)"
    by (simp add: get_game_by_api_key_def scan_games_find)
  show "get_game_by_api_key pbkdf2_hmac d k = None
          \<longleftrightarrow> (\<forall>g \<in> set (games d). g_api_key_hash g \<noteq> ?h)"
    by (auto simp: eq find_None_iff)
  show "get_game_by_api_key pbkdf2_hmac d k = Some (games d ! i)"
    if "i < length (games d)"
      and "?P (games d ! i) \<and> (\<forall>j < i. g_api_key_hash (games d ! j) \<noteq> ?h)" for i
    using that unfolding eq find_Some_iff by blast
  show "get_game_by_api_key pbkdf2_hmac d k = Some g"
    if "distinct (map g_api_key_hash (games d)) \<and> g \<in> set (games d) \<and> g_api_key_hash g = ?h"
    using that find_distinct_key[of g_api_key_hash "games d" g] by (simp add: eq)
  show "\<exists>g'. games d' = games d @ [g'] \<and> g_id g' = gr_id r
                 \<and> g_api_key_hash g' = hash_api_key pbkdf2_hmac (gr_api_key r)
                 \<and> get_game_by_api_key pbkdf2_hmac d' (gr_api_key r) = Some g'
                 \<and> (distinct (map g_api_key_hash (games d))
                      \<longrightarrow> distinct (map g_api_key_hash (games d')))"
    if cg: "create_game pbkdf2_hmac token fault now gc d = (Inr r, d')"
  proof -
    let ?key = "generate_api_key token"
    let ?hk = "hash_api_key pbkdf2_hmac ?key"
    from cg obtain g' where
      ins: "insert_game fault now (gc_name gc) (gc_description gc) ?hk d = Inr (g', d')"
      and r: "gr_api_key r = ?key" "gr_id r = g_id g'"
      by (auto simp: create_game_def Let_def split: sum.splits prod.splits)
    from insert_game_Inr[OF ins] have
      fresh: "?hk \<notin> g_api_key_hash ` set (games d)" and h: "g_api_key_hash g' = ?hk"
      and gs: "games d' = games d @ [g']"
      by simp_all
    have "find (\<lambda>g. g_api_key_hash g = ?hk) (games d @ [g']) = Some g'"
      using fresh h by (intro find_append_last) (auto simp: image_iff)
    then have "get_game_by_api_key pbkdf2_hmac d' ?key = Some g'"
      by (simp add: get_game_by_api_key_def scan_games_find gs)
    moreover have "distinct (map g_api_key_hash (games d))
                     \<longrightarrow> distinct (map g_api_key_hash (games d'))"
      using fresh h by (simp add: gs)
    ultimately show ?thesis
      using gs h r by auto
  qed
qed

lemma create_T:
  "create_game sample_kdf ''T'' None (t0 + 1) \<lparr>gc_name = ''Test Game'', gc_description = None\<rparr> db0
     = (Inr \<lparr>gr_id = 1, gr_name = ''Test Game'', gr_description = None, gr_api_key = ''game_T'',
             gr_created_at = t0 + 1\<rparr>, \<lparr>games = [game_T], scores = []\<rparr>)"
  by (simp add: db0_def create_game_def insert_game_def generate_api_key_def hash_T game_T_def Let_def)

theorem resolve_issued_key_witness:
  "get_game_by_api_key sample_kdf example_db ''game_U'' = Some game_U
   \<and> find (\<lambda>g. g_api_key_hash g = hash_api_key sample_kdf ''game_U'') (games example_db) = Some game_U
   \<and> get_game_by_api_key sample_kdf example_db ''game_X'' = None
   \<and> distinct (map g_api_key_hash (games example_db))
   \<and> game_U \<in> set (games example_db)
   \<and> g_api_key_hash game_U = hash_api_key sample_kdf ''game_U''
   \<and> create_game sample_kdf ''T'' None (t0 + 1) \<lparr>gc_name = ''Test Game'', gc_description = None\<rparr> db0
       = (Inr \<lparr>gr_id = 1, gr_name = ''Test Game'', gr_description = None, gr_api_key = ''game_T'',
               gr_created_at = t0 + 1\<rparr>, \<lparr>games = [game_T], scores = []\<rparr>)
   \<and> get_game_by_api_key sample_kdf \<lparr>games = [game_T], scores = []\<rparr> ''game_T'' = Some game_T"
proof -
  have hX: "hash_api_key sample_kdf ''game_X'' = ''67616d655f586869676873636f72655f6170695f73616c745f32303235''"
    by (simp add: hash_api_key_def sample_kdf_def bytes_hex_def hex_digit_def)
  have g: "games example_db = [game_T, game_U]" by (simp add: example_db_eq)
  have dist: "distinct (map g_api_key_hash (games example_db))"
    by (simp add: g game_T_def game_U_def)
  have hU: "g_api_key_hash game_U = hash_api_key sample_kdf ''game_U''"
    by (simp add: hash_U game_U_def)
  have none: "\<forall>g \<in> set (games example_db). g_api_key_hash g \<noteq> hash_api_key sample_kdf ''game_X''"
    by (simp add: g hX game_T_def game_U_def)
  note a = resolve_issued_key[where pbkdf2_hmac = sample_kdf and d = example_db and k = "''game_U''"
      and g = game_U]
  note b = resolve_issued_key[where pbkdf2_hmac = sample_kdf and d = example_db and k = "''game_X''"]
  from a dist hU g have 1: "get_game_by_api_key sample_kdf example_db ''game_U'' = Some game_U" by simp
  from a 1 have 2: "find (\<lambda>g. g_api_key_hash g = hash_api_key sample_kdf ''game_U'') (games example_db) = Some game_U"
    by simp
  from b none have 3: "get_game_by_api_key sample_kdf example_db ''game_X'' = None" by blast
  note c = resolve_issued_key[where pbkdf2_hmac = sample_kdf and d = db0 and token = "''T''"
      and fault = None and now = "t0 + 1"
      and gc = "\<lparr>gc_name = ''Test Game'', gc_description = None\<rparr>"
      and d' = "\<lparr>games = [game_T], scores = []\<rparr>" and k = "''game_T''"
      and r = "\<lparr>gr_id = 1, gr_name = ''Test Game'', gr_description = None,
                gr_api_key = ''game_T'', gr_created_at = t0 + 1\<rparr>"]
  from c create_T have 4: "get_game_by_api_key sample_kdf \<lparr>games = [game_T], scores = []\<rparr> ''game_T'' = Some game_T"
    by simp
  show ?thesis using 1 2 3 4 dist hU g create_T by simp
qed

section \<open>Registration: what an internal failure answers\<close>

lemma create_game_fault:
  "create_game pbkdf2_hmac token (Some msg) now game d
     = (Inl (HTTPException 500 (''Failed to create game: '' @ msg)), d)"
  by (simp add: create_game_def insert_game_def)

text \<open>
  C8. When the storage fails during a registration, the answer of \<open>create_game\<close> carries the
  text of the exception in its detail; the handler of app/main.py answers any exception
  with one fixed message.
\<close>

theorem create_game_error_detail:
  "create_game sample_kdf ''T'' (Some ''(sqlite3.OperationalError) database is locked'')
       (t0 + 1) \<lparr>gc_name = ''Test Game'', gc_description = None\<rparr> db0
     = (Inl (HTTPException 500
          ''Failed to create game: (sqlite3.OperationalError) database is locked''), db0)
   \<and> global_exception_handler ''(sqlite3.OperationalError) database is locked''
     = (500, [(''detail'', ''An internal error occurred. Please try again later.''),
              (''type'', ''internal_error'')])"
  by (simp add: create_game_fault global_exception_handler_def)


section \<open>Validation of a submission\<close>

lemma ScoreCreate_rejects:
  "(\<exists>e. field_player_name (sc_player_name body) = Inl e)
   \<or> (\<exists>e. field_score (sc_score body) = Inl e)
   \<or> (\<exists>e. field_game_metadata json_dumps (sc_game_metadata body) = Inl e)
   \<Longrightarrow> \<exists>errs. errs \<noteq> [] \<and> ScoreCreate json_dumps body = Inl (RequestValidationError errs)"
  by (auto simp: ScoreCreate_def Let_def field_errors_def split: sum.splits)

lemma check_keys_Some:
  "(\<exists>key \<in> set keys. \<not> re_match_class metadata_key_char key) \<Longrightarrow> \<exists>msg. check_keys keys = Some msg"
  by (induction keys) auto

lemma check_keys_None:
  "check_keys keys = None \<longleftrightarrow> (\<forall>key \<in> set keys. re_match_class metadata_key_char key)"
  by (induction keys) auto

lemma player_class_newline: "player_name_char (CHR 0x0A)"
  by (simp add: player_name_char_def isspace_def)

lemma re_match_player:
  "re_match_class player_name_char v \<longleftrightarrow> v \<noteq> [] \<and> list_all player_name_char v"
proof -
  have "list_all player_name_char v"
    if "v \<noteq> []" "last v = CHR 0x0A" "list_all player_name_char (butlast v)"
  proof -
    have "v = butlast v @ [last v]" using that(1) by simp
    then have "list_all player_name_char v = list_all player_name_char (butlast v @ [CHR 0x0A])"
      using that(2) by simp
    then show ?thesis using that(3) player_class_newline by simp
  qed
  then show ?thesis unfolding re_match_class_def by blast
qed

text \<open>
  Every violation that does not depend on how \<open>$\<close> reads a final newline is rejected before
  the endpoint runs, and leaves the store as it was.
\<close>

lemma invalid_body_rejected:
  assumes "strip name = []
           \<or> \<not> list_all player_name_char (strip name)
           \<or> length name > 50
           \<or> v < 0 \<or> v > 999999999
           \<or> (\<exists>m. md = Some m \<and>
                  (length (json_dumps m) > 10240
                   \<or> (\<exists>key \<in> set (map fst m). \<not> re_match_class metadata_key_char key)))"
  shows "\<exists>errs. errs \<noteq> [] \<and>
           post_scores pbkdf2_hmac json_dumps now
               \<lparr>sc_player_name = name, sc_score = v, sc_game_metadata = md\<rparr> api_key d
             = (Inl (RequestValidationError errs), d)"
proof -
  let ?body = "\<lparr>sc_player_name = name, sc_score = v, sc_game_metadata = md\<rparr>"
  have "(\<exists>e. field_player_name name = Inl e) \<or> (\<exists>e. field_score v = Inl e)
        \<or> (\<exists>e. field_game_metadata json_dumps md = Inl e)"
    using assms
  proof (elim disjE exE conjE)
    assume "strip name = []"
    then show ?thesis
      by (simp add: field_player_name_def validate_player_name_def)
  next
    assume "\<not> list_all player_name_char (strip name)"
    then show ?thesis
      by (simp add: field_player_name_def validate_player_name_def re_match_player Let_def)
  next
    assume "length name > 50"
    then show ?thesis
      by (simp add: field_player_name_def max_player_name_length_def)
  next
    assume "v < 0"
    then show ?thesis by (simp add: field_score_def)
  next
    assume "v > 999999999"
    then show ?thesis by (simp add: field_score_def max_score_value_def)
  next
    fix m assume "md = Some m" "length (json_dumps m) > 10240"
    then show ?thesis
      by (simp add: field_game_metadata_def validate_metadata_def max_metadata_size_def)
  next
    fix m assume m: "md = Some m"
      and "\<exists>key \<in> set (map fst m). \<not> re_match_class metadata_key_char key"
    then obtain msg where "check_keys (map fst m) = Some msg"
      using check_keys_Some by blast
    then show ?thesis using m
      by (simp add: field_game_metadata_def validate_metadata_def Let_def)
  qed
  then obtain errs where "errs \<noteq> []" "ScoreCreate json_dumps ?body = Inl (RequestValidationError errs)"
    using ScoreCreate_rejects[of ?body json_dumps] by auto
  then show ?thesis by (auto simp: post_scores_def)
qed

text \<open>
  C6. A metadata key made of the letter k and a newline has a character outside the class of
  keys, and yet the submission that carries it is accepted and its event is stored.
\<close>

theorem newline_key_is_stored:
  "\<not> list_all metadata_key_char [CHR ''k'', CHR 0x0A]
   \<and> post_scores sample_kdf py_json_dumps (t0 + 60)
        \<lparr>sc_player_name = ''Alice'', sc_score = 10,
         sc_game_metadata = Some [([CHR ''k'', CHR 0x0A], JInt 1)]\<rparr> ''game_T'' example_db
     = (Inr \<lparr>s_id = 6, s_game_id = 1, s_player_name = ''Alice'', s_score = 10,
             s_game_metadata = Some [([CHR ''k'', CHR 0x0A], JInt 1)], s_created_at = t0 + 60\<rparr>,
        example_db\<lparr>scores := scores example_db @
          [\<lparr>s_id = 6, s_game_id = 1, s_player_name = ''Alice'', s_score = 10,
            s_game_metadata = Some [([CHR ''k'', CHR 0x0A], JInt 1)], s_created_at = t0 + 60\<rparr>]\<rparr>)"
proof -
  have key: "\<not> list_all metadata_key_char [CHR ''k'', CHR 0x0A]"
    by (simp add: metadata_key_char_def word_char_def isalnum_def)
  have body: "ScoreCreate py_json_dumps
        \<lparr>sc_player_name = ''Alice'', sc_score = 10,
         sc_game_metadata = Some [([CHR ''k'', CHR 0x0A], JInt 1)]\<rparr>
      = Inr \<lparr>sc_player_name = ''Alice'', sc_score = 10,
         sc_game_metadata = Some [([CHR ''k'', CHR 0x0A], JInt 1)]\<rparr>"
    by (simp add: validation_defs dumps_defs digits.simps)
  have g: "games example_db = [game_T, game_U]" by (simp add: example_db_eq)
  have n: "length (scores example_db) = 5" by (simp add: example_db_eq)
  show ?thesis
    using key by (simp add: post_scores_def body submit_score_def resolve_T[OF g] n game_T_def Let_def)
qed

section \<open>The window of a leaderboard request\<close>

lemma replace_midnight_floor:
  "replace_midnight now mod usec_per_day = 0 \<and> replace_midnight now \<le> now
   \<and> now < replace_midnight now + usec_per_day"
proof -
  have pos: "0 < usec_per_day" by (simp add: usec_per_day_def)
  have "replace_midnight now = (now div usec_per_day) * usec_per_day"
    unfolding replace_midnight_def by (simp add: minus_mod_eq_div_mult)
  moreover have "0 \<le> now mod usec_per_day" "now mod usec_per_day < usec_per_day"
    using pos by simp_all
  ultimately show ?thesis
    unfolding replace_midnight_def by simp
qed

text \<open>
  C7. The period of a request gives the lower bound of the window: \<open>today\<close> the midnight of
  the current day (the multiple of a day that is at most \<open>now\<close> and less than a day before
  it), \<open>week\<close>, \<open>month\<close> and \<open>year\<close> the time 7, 30 and 365 days before \<open>now\<close>; no period
  and any other period give no bound. An event is in the scope of the request when it is
  the tenant's and not before the bound, if there is one.
\<close>

theorem period_lower_bound:
  "get_date_filter now (Some ''today'') = Some (replace_midnight now)
   \<and> replace_midnight now mod 86400000000 = 0
   \<and> replace_midnight now \<le> now \<and> now < replace_midnight now + 86400000000
   \<and> get_date_filter now (Some ''week'') = Some (now - 7 * 86400000000)
   \<and> get_date_filter now (Some ''month'') = Some (now - 30 * 86400000000)
   \<and> get_date_filter now (Some ''year'') = Some (now - 365 * 86400000000)
   \<and> get_date_filter now None = None
   \<and> (p \<notin> {''today'', ''week'', ''month'', ''year''} \<longrightarrow> get_date_filter now (Some p) = None)
   \<and> (in_scope gid (get_date_filter now period) s
        \<longleftrightarrow> s_game_id s = gid
            \<and> (\<forall>t. get_date_filter now period = Some t \<longrightarrow> t \<le> s_created_at s))"
proof -
  have "in_scope gid (get_date_filter now period) s
        \<longleftrightarrow> s_game_id s = gid
            \<and> (\<forall>t. get_date_filter now period = Some t \<longrightarrow> t \<le> s_created_at s)"
    by (cases "get_date_filter now period") (simp_all add: in_scope_def)
  moreover have "p \<notin> {''today'', ''week'', ''month'', ''year''} \<longrightarrow> get_date_filter now (Some p) = None"
    by (simp add: get_date_filter_def)
  moreover have "get_date_filter now (Some ''today'') = Some (replace_midnight now)"
    "get_date_filter now (Some ''week'') = Some (now - 7 * 86400000000)"
    "get_date_filter now (Some ''month'') = Some (now - 30 * 86400000000)"
    "get_date_filter now (Some ''year'') = Some (now - 365 * 86400000000)"
    "get_date_filter now None = None"
    by (simp_all add: get_date_filter_def timedelta_days_def usec_per_day_def)
  ultimately show ?thesis
    using replace_midnight_floor[of now] by (simp add: usec_per_day_def)
qed

text \<open>At 2025-01-01T12:00:00.000007 the day began at \<open>t0\<close>, and \<open>forever\<close> is no period.\<close>

theorem period_lower_bound_witness:
  "get_date_filter (t0 + 43200000007) (Some ''today'') = Some t0
   \<and> get_date_filter (t0 + 43200000007) (Some ''week'') = Some (t0 + 43200000007 - 7 * 86400000000)
   \<and> ''forever'' \<notin> {''today'', ''week'', ''month'', ''year''}
   \<and> get_date_filter (t0 + 43200000007) (Some ''forever'') = None
   \<and> in_scope 1 (get_date_filter (t0 + 43200000007) (Some ''today'')) (row 1 1 ''Alice'' 1000 (t0 + 10))
   \<and> \<not> in_scope 1 (get_date_filter (t0 + 43200000007) (Some ''today'')) (row 1 1 ''Alice'' 1000 (t0 - 1))"
proof -
  have m: "replace_midnight (t0 + 43200000007) = t0"
    by (simp add: replace_midnight_def t0_def usec_per_day_def)
  note a = period_lower_bound[where now = "t0 + 43200000007" and p = "''forever''" and gid = 1
      and period = "Some ''today''" and s = "row 1 1 ''Alice'' 1000 (t0 + 10)"]
  note b = period_lower_bound[where now = "t0 + 43200000007" and p = "''forever''" and gid = 1
      and period = "Some ''today''" and s = "row 1 1 ''Alice'' 1000 (t0 - 1)"]
  have ne: "''forever'' \<notin> {''today'', ''week'', ''month'', ''year''}" by simp
  from a ne have 1: "get_date_filter (t0 + 43200000007) (Some ''forever'') = None" by blast
  from a m have 2: "get_date_filter (t0 + 43200000007) (Some ''today'') = Some t0" by simp
  from a have 3: "get_date_filter (t0 + 43200000007) (Some ''week'') = Some (t0 + 43200000007 - 7 * 86400000000)"
    by blast
  from a 2 have 4: "in_scope 1 (get_date_filter (t0 + 43200000007) (Some ''today'')) (row 1 1 ''Alice'' 1000 (t0 + 10))"
    by (simp add: row_def)
  from b 2 have 5: "\<not> in_scope 1 (get_date_filter (t0 + 43200000007) (Some ''today'')) (row 1 1 ''Alice'' 1000 (t0 - 1))"
    by (simp add: row_def)
  show ?thesis using 1 2 3 4 5 ne by blast
qed


section \<open>The count of a leaderboard\<close>

lemma scope_players:
  "set (map s_player_name (filter (in_scope gid df) ss))
     = {p. \<exists>s \<in> set ss. s_player_name s = p \<and> s_game_id s = gid
                          \<and> (\<forall>t. df = Some t \<longrightarrow> t \<le> s_created_at s)}"
  by (cases df) (auto simp: in_scope_def)

lemma total_query_card:
  "total_query gid df d
     = int (card {p. \<exists>s \<in> set (scores d). s_player_name s = p \<and> s_game_id s = gid
                          \<and> (\<forall>t. df = Some t \<longrightarrow> t \<le> s_created_at s)})"
  unfolding total_query_def length_remdups_card_conv scope_players ..

lemma get_leaderboard_Some:
  "get_game_by_api_key k d api_key = Some game \<Longrightarrow>
   get_leaderboard k now limit period api_key d
     = Inr \<lparr>lr_game_id = g_id game, lr_game_name = g_name game,
            lr_entries = build_entries
               (leaderboard_query (g_id game) (get_date_filter now period) limit d),
            lr_total_entries = total_query (g_id game) (get_date_filter now period) d,
            lr_period = period\<rparr>"
  by (simp add: get_leaderboard_def Let_def)

text \<open>
  C2. For a key that resolves to a game, the leaderboard is returned, and its
  \<open>total_entries\<close> is the number of distinct player names that have an event of that game
  in the window; the request returns the same number for every other limit.
\<close>

theorem total_entries_distinct_players:
  assumes "get_game_by_api_key k d api_key = Some game"
  shows "\<exists>r. get_leaderboard k now limit period api_key d = Inr r
           \<and> lr_total_entries r
               = int (card {p. \<exists>s \<in> set (scores d). s_player_name s = p \<and> s_game_id s = g_id game
                     \<and> (\<forall>t. get_date_filter now period = Some t \<longrightarrow> t \<le> s_created_at s)})
           \<and> (\<forall>limit'. \<exists>r'. get_leaderboard k now limit' period api_key d = Inr r'
                              \<and> lr_total_entries r' = lr_total_entries r)"
  by (simp add: get_leaderboard_Some[OF assms] total_query_card)

section \<open>The leaderboard of the examples\<close>

lemma example_games: "games example_db = [game_T, game_U]"
  by (simp add: example_db_eq)

lemma example_scope_T:
  "filter (in_scope 1 None) (scores example_db)
     = [row 1 1 ''Alice'' 1000 (t0 + 10), row 2 1 ''Bob'' 1500 (t0 + 20),
        row 3 1 ''Charlie'' 900 (t0 + 30), row 5 1 ''Alice'' 1200 (t0 + 50)]"
  by (simp add: example_db_eq in_scope_def row_def)

lemma example_groups_T:
  "group_by_player [row 1 1 ''Alice'' 1000 (t0 + 10), row 2 1 ''Bob'' 1500 (t0 + 20),
        row 3 1 ''Charlie'' 900 (t0 + 30), row 5 1 ''Alice'' 1200 (t0 + 50)]
     = [\<lparr>row_player_name = ''Bob'', row_best_score = 1500, row_latest_date = t0 + 20\<rparr>,
        \<lparr>row_player_name = ''Charlie'', row_best_score = 900, row_latest_date = t0 + 30\<rparr>,
        \<lparr>row_player_name = ''Alice'', row_best_score = 1200, row_latest_date = t0 + 50\<rparr>]"
  by (simp add: group_by_player_def row_def)

lemma example_leaderboard:
  "get_leaderboard sample_kdf now limit None ''game_T'' example_db
     = Inr \<lparr>lr_game_id = 1, lr_game_name = ''Test Game'',
            lr_entries = build_entries (take (nat limit)
              [\<lparr>row_player_name = ''Bob'', row_best_score = 1500, row_latest_date = t0 + 20\<rparr>,
               \<lparr>row_player_name = ''Alice'', row_best_score = 1200, row_latest_date = t0 + 50\<rparr>,
               \<lparr>row_player_name = ''Charlie'', row_best_score = 900, row_latest_date = t0 + 30\<rparr>]),
            lr_total_entries = 3, lr_period = None\<rparr>"
proof -
  have "total_query 1 None example_db = 3"
    by (simp add: total_query_def example_scope_T) (simp add: row_def)
  then show ?thesis
    by (simp add: get_leaderboard_Some[OF resolve_T[OF example_games]] get_date_filter_def
          leaderboard_query_def example_scope_T example_groups_T order_by_desc_def game_T_def)
qed

lemma example_entries_10:
  "build_entries (take (nat 10)
              [\<lparr>row_player_name = ''Bob'', row_best_score = 1500, row_latest_date = t0 + 20\<rparr>,
               \<lparr>row_player_name = ''Alice'', row_best_score = 1200, row_latest_date = t0 + 50\<rparr>,
               \<lparr>row_player_name = ''Charlie'', row_best_score = 900, row_latest_date = t0 + 30\<rparr>])
   = [\<lparr>le_rank = 1, le_player_name = ''Bob'', le_score = 1500, le_created_at = t0 + 20\<rparr>,
      \<lparr>le_rank = 2, le_player_name = ''Alice'', le_score = 1200, le_created_at = t0 + 50\<rparr>,
      \<lparr>le_rank = 3, le_player_name = ''Charlie'', le_score = 900, le_created_at = t0 + 30\<rparr>]"
  by (simp add: build_entries_def enumerate_eq_zip upt_rec)

section \<open>The entries of a leaderboard\<close>

lemma group_names: "map row_player_name (group_by_player ss) = remdups (map s_player_name ss)"
  by (simp add: group_by_player_def Let_def o_def)

lemma group_row:
  assumes "r \<in> set (group_by_player ss)"
  shows "row_player_name r \<in> s_player_name ` set ss
       \<and> row_best_score r = Max (s_score ` {s \<in> set ss. s_player_name s = row_player_name r})
       \<and> row_latest_date r = Max (s_created_at ` {s \<in> set ss. s_player_name s = row_player_name r})"
  using assms by (auto simp: group_by_player_def Let_def)

lemma order_set: "set (order_by_desc rows) = set rows"
  by (simp add: order_by_desc_def)

lemma order_length: "length (order_by_desc rows) = length rows"
  by (simp add: order_by_desc_def)

lemma order_distinct_names:
  "distinct (map row_player_name (order_by_desc rows)) = distinct (map row_player_name rows)"
  by (simp add: order_by_desc_def distinct_map)

lemma order_desc:
  assumes "i \<le> j" "j < length rows"
  shows "row_best_score (order_by_desc rows ! j) \<le> row_best_score (order_by_desc rows ! i)"
proof -
  let ?o = "order_by_desc rows"
  have s: "sorted (map (\<lambda>r. - row_best_score r) ?o)"
    by (simp add: order_by_desc_def)
  have len: "j < length (map (\<lambda>r. - row_best_score r) ?o)"
    using assms by (simp add: order_length)
  from sorted_nth_mono[OF s assms(1) len] show ?thesis
    using assms by (simp add: order_length)
qed

lemma build_entries_length: "length (build_entries rs) = length rs"
  by (simp add: build_entries_def)

lemma build_entries_nth:
  "i < length rs \<Longrightarrow> build_entries rs ! i
     = \<lparr>le_rank = int i + 1, le_player_name = row_player_name (rs ! i),
        le_score = row_best_score (rs ! i), le_created_at = row_latest_date (rs ! i)\<rparr>"
  by (simp add: build_entries_def nth_enumerate_eq)

lemma build_entries_names: "map le_player_name (build_entries rs) = map row_player_name rs"
  by (rule nth_equalityI) (simp_all add: build_entries_length build_entries_nth)

lemma build_entries_mem:
  assumes "e \<in> set (build_entries rs)"
  shows "\<exists>r \<in> set rs. le_player_name e = row_player_name r \<and> le_score e = row_best_score r
                       \<and> le_created_at e = row_latest_date r"
proof -
  from assms obtain i where "i < length rs" "e = build_entries rs ! i"
    by (auto simp: in_set_conv_nth build_entries_length)
  then show ?thesis by (auto simp: build_entries_nth)
qed

lemma scope_rows:
  "{s \<in> set (filter (in_scope gid df) ss). s_player_name s = p}
     = {s \<in> set ss. s_game_id s = gid \<and> (\<forall>t. df = Some t \<longrightarrow> t \<le> s_created_at s)
                      \<and> s_player_name s = p}"
  by (cases df) (auto simp: in_scope_def)

text \<open>
  C1. For a key that resolves to a game, the leaderboard is returned. With the qualifying
  events those of the game in the window: it has one entry for each of the first
  \<open>limit\<close> players, so at most \<open>limit\<close> entries, of distinct players that have a qualifying
  event, and an entry for every such player when they are at most \<open>limit\<close>; an entry
  carries the greatest score and the latest timestamp of its player's qualifying events;
  the entry at position \<open>i\<close> (from 0) has rank \<open>i + 1\<close>; scores do not increase along the
  list; and no player left out by the limit has a better best score than a player listed.
\<close>

theorem leaderboard_entries:
  fixes k :: kdf and d :: db and game :: game and now :: datetime and period :: "string option"
  defines "qualifies \<equiv> \<lambda>s. s \<in> set (scores d) \<and> s_game_id s = g_id game
              \<and> (\<forall>t. get_date_filter now period = Some t \<longrightarrow> t \<le> s_created_at s)"
  defines "players \<equiv> {p. \<exists>s. qualifies s \<and> s_player_name s = p}"
  defines "best \<equiv> \<lambda>p. Max (s_score ` {s. qualifies s \<and> s_player_name s = p})"
  defines "latest \<equiv> \<lambda>p. Max (s_created_at ` {s. qualifies s \<and> s_player_name s = p})"
  assumes key: "get_game_by_api_key k d api_key = Some game"
  shows "\<exists>r. get_leaderboard k now limit period api_key d = Inr r
     \<and> length (lr_entries r) = min (nat limit) (card players)
     \<and> distinct (map le_player_name (lr_entries r))
     \<and> le_player_name ` set (lr_entries r) \<subseteq> players
     \<and> (card players \<le> nat limit \<longrightarrow> le_player_name ` set (lr_entries r) = players)
     \<and> (\<forall>e \<in> set (lr_entries r).
           le_score e = best (le_player_name e) \<and> le_created_at e = latest (le_player_name e))
     \<and> (\<forall>i < length (lr_entries r). le_rank (lr_entries r ! i) = int i + 1)
     \<and> (\<forall>i j. i < j \<and> j < length (lr_entries r)
           \<longrightarrow> le_score (lr_entries r ! j) \<le> le_score (lr_entries r ! i))
     \<and> (\<forall>p \<in> players - le_player_name ` set (lr_entries r).
          \<forall>e \<in> set (lr_entries r). best p \<le> le_score e)"
proof -
  define df where "df = get_date_filter now period"
  define ss where "ss = filter (in_scope (g_id game) df) (scores d)"
  define G where "G = group_by_player ss"
  define Q where "Q = order_by_desc G"
  define n where "n = nat limit"
  define R where "R = take n Q"
  define es where "es = build_entries R"
  have names_ss: "set (map s_player_name ss) = players"
    unfolding ss_def scope_players players_def qualifies_def df_def by auto
  have rows_ss: "{s \<in> set ss. s_player_name s = p} = {s. qualifies s \<and> s_player_name s = p}" for p
    unfolding ss_def scope_rows qualifies_def df_def by auto
  have names_G: "map row_player_name G = remdups (map s_player_name ss)"
    by (simp add: G_def group_names)
  have set_names_G: "row_player_name ` set G = players"
    using names_G names_ss by (metis set_map set_remdups)
  have row_G: "row_best_score g = best (row_player_name g) \<and> row_latest_date g = latest (row_player_name g)"
    if "g \<in> set G" for g
    using group_row[of g ss] that by (simp add: G_def rows_ss best_def latest_def)
  have len_G: "length G = card players"
    using names_G names_ss by (metis length_map length_remdups_card_conv)
  have set_Q: "set Q = set G" by (simp add: Q_def order_set)
  have len_Q: "length Q = card players" by (simp add: Q_def order_length len_G)
  have dist_Q: "distinct (map row_player_name Q)"
    by (simp add: Q_def order_distinct_names names_G)
  have len_R: "length R = min n (card players)" by (simp add: R_def len_Q min.commute)
  have R_nth: "R ! i = Q ! i" if "i < length R" for i using that by (simp add: R_def)
  have set_R: "set R \<subseteq> set G" using set_Q by (auto simp: R_def dest: in_set_takeD)
  have dist_R: "distinct (map row_player_name R)"
    using distinct_take[OF dist_Q, of n] by (simp add: R_def take_map)
  have r: "get_leaderboard k now limit period api_key d
     = Inr \<lparr>lr_game_id = g_id game, lr_game_name = g_name game, lr_entries = es,
            lr_total_entries = total_query (g_id game) df d, lr_period = period\<rparr>"
    by (simp add: get_leaderboard_Some[OF key] es_def R_def Q_def G_def ss_def n_def df_def
          leaderboard_query_def)
  have names_es: "map le_player_name es = map row_player_name R"
    by (simp add: es_def build_entries_names)
  have set_names_es: "le_player_name ` set es = row_player_name ` set R"
    using names_es by (metis set_map)
  have 1: "length es = min (nat limit) (card players)"
    by (simp add: es_def build_entries_length len_R n_def)
  have 2: "distinct (map le_player_name es)"
    by (simp add: names_es dist_R)
  have 3: "le_player_name ` set es \<subseteq> players"
    using set_R set_names_G by (auto simp: set_names_es)
  have 4: "le_player_name ` set es = players" if "card players \<le> nat limit"
  proof -
    have "R = Q" using that by (simp add: R_def len_Q n_def)
    then show ?thesis by (simp add: set_names_es set_Q set_names_G)
  qed
  have 5: "le_score e = best (le_player_name e) \<and> le_created_at e = latest (le_player_name e)"
    if "e \<in> set es" for e
  proof -
    from build_entries_mem[OF that[unfolded es_def]] obtain g where
      "g \<in> set R" "le_player_name e = row_player_name g" "le_score e = row_best_score g"
      "le_created_at e = row_latest_date g" by blast
    then show ?thesis using row_G[of g] set_R by auto
  qed
  have len_es: "length es = length R" by (simp add: es_def build_entries_length)
  have es_nth: "es ! i = \<lparr>le_rank = int i + 1, le_player_name = row_player_name (Q ! i),
        le_score = row_best_score (Q ! i), le_created_at = row_latest_date (Q ! i)\<rparr>"
    if "i < length es" for i
    using that by (simp add: es_def build_entries_nth build_entries_length R_nth)
  have 6: "le_rank (es ! i) = int i + 1" if "i < length es" for i
    using that by (simp add: es_nth)
  have len_le: "length es \<le> length G" using len_es len_R len_G by simp
  have 7: "le_score (es ! j) \<le> le_score (es ! i)" if "i < j \<and> j < length es" for i j
  proof -
    have "row_best_score (Q ! j) \<le> row_best_score (Q ! i)"
      unfolding Q_def using that len_le by (intro order_desc) auto
    then show ?thesis using that by (simp add: es_nth)
  qed
  have 8: "best p \<le> le_score e" if p: "p \<in> players - le_player_name ` set es" and e: "e \<in> set es"
    for p e
  proof -
    from p set_names_G set_Q obtain g where g: "g \<in> set Q" "row_player_name g = p" by auto
    then obtain m where m: "m < length Q" "Q ! m = g" by (auto simp: in_set_conv_nth)
    from e obtain i where i: "i < length es" "e = es ! i" by (auto simp: in_set_conv_nth)
    have "g \<notin> set R" using p g(2) by (auto simp: set_names_es)
    then have "\<not> m < n" using m by (auto simp: R_def in_set_conv_nth)
    moreover have "i < n" using i(1) len_es by (simp add: R_def)
    ultimately have "i \<le> m" by simp
    then have "row_best_score (Q ! m) \<le> row_best_score (Q ! i)"
      unfolding Q_def using m(1) by (intro order_desc) (auto simp: Q_def order_length)
    moreover have "row_best_score g = best p" using row_G[of g] g set_Q by simp
    ultimately show ?thesis using i m(2) by (simp add: es_nth)
  qed
  show ?thesis
    unfolding r using 1 2 3 4 5 6 7 8 by simp
qed

text \<open>
  The store of the examples, read with the key of the first game: Bob, Alice and Charlie,
  in this order, and Bob and Alice when the limit is 2.
\<close>

theorem leaderboard_entries_witness:
  "get_game_by_api_key sample_kdf example_db ''game_T'' = Some game_T
   \<and> get_leaderboard sample_kdf (t0 + 100) 10 None ''game_T'' example_db
     = Inr \<lparr>lr_game_id = 1, lr_game_name = ''Test Game'',
        lr_entries =
          [\<lparr>le_rank = 1, le_player_name = ''Bob'', le_score = 1500, le_created_at = t0 + 20\<rparr>,
           \<lparr>le_rank = 2, le_player_name = ''Alice'', le_score = 1200, le_created_at = t0 + 50\<rparr>,
           \<lparr>le_rank = 3, le_player_name = ''Charlie'', le_score = 900, le_created_at = t0 + 30\<rparr>],
        lr_total_entries = 3, lr_period = None\<rparr>
   \<and> get_leaderboard sample_kdf (t0 + 100) 2 None ''game_T'' example_db
     = Inr \<lparr>lr_game_id = 1, lr_game_name = ''Test Game'',
        lr_entries =
          [\<lparr>le_rank = 1, le_player_name = ''Bob'', le_score = 1500, le_created_at = t0 + 20\<rparr>,
           \<lparr>le_rank = 2, le_player_name = ''Alice'', le_score = 1200, le_created_at = t0 + 50\<rparr>],
        lr_total_entries = 3, lr_period = None\<rparr>"
proof -
  have key: "get_game_by_api_key sample_kdf example_db ''game_T'' = Some game_T"
    by (rule resolve_T[OF example_games])
  have two: "nat 2 = Suc (Suc 0)" "nat 10 = 10" by simp_all
  have ev: ?thesis
    using key
    by (simp add: example_leaderboard example_entries_10[simplified] two build_entries_def
          enumerate_eq_zip upt_rec)
  note th = leaderboard_entries[OF key, where now = "t0 + 100" and period = None and limit = 10]
  from th ev show ?thesis by - (rule ev)
qed

text \<open>The three players of the first game are counted whatever the limit.\<close>

theorem total_entries_distinct_players_witness:
  "get_game_by_api_key sample_kdf example_db ''game_T'' = Some game_T
   \<and> (\<exists>r. get_leaderboard sample_kdf (t0 + 100) 1 None ''game_T'' example_db = Inr r
          \<and> lr_total_entries r = 3 \<and> length (lr_entries r) = 1)
   \<and> (\<exists>r. get_leaderboard sample_kdf (t0 + 100) 100 None ''game_T'' example_db = Inr r
          \<and> lr_total_entries r = 3 \<and> length (lr_entries r) = 3)"
proof -
  have key: "get_game_by_api_key sample_kdf example_db ''game_T'' = Some game_T"
    by (rule resolve_T[OF example_games])
  have ev: ?thesis
    using key by (simp add: example_leaderboard build_entries_length)
  note th = total_entries_distinct_players[OF key, where now = "t0 + 100" and limit = 1 and period = None]
  from th ev show ?thesis by - (rule ev)
qed

section \<open>Player statistics\<close>

lemma get_player_stats_Some:
  assumes "get_game_by_api_key k d api_key = Some game"
  shows "get_player_stats k truediv round_f p api_key d
     = (let evs = player_rows (g_id game) p d
        in if evs = [] then Inl (player_not_found p)
           else Inr \<lparr>ps_player_name = p, ps_game_id = g_id game,
                  ps_total_scores = int (length evs),
                  ps_best_score = Max (set (map s_score evs)),
                  ps_average_score =
                    round_f (truediv (sum_list (map s_score evs)) (int (length evs))) 2,
                  ps_worst_score = Min (set (map s_score evs)),
                  ps_rank = Some (rank_query (g_id game) p (Max (set (map s_score evs))) d + 1),
                  ps_first_played = Min (set (map s_created_at evs)),
                  ps_last_played = Max (set (map s_created_at evs))\<rparr>)"
  using assms by (simp add: get_player_stats_def Let_def)

lemma ScoreCreate_Inr:
  assumes "ScoreCreate j body = Inr b"
  shows "sc_player_name b = strip (sc_player_name body) \<and> sc_score b = sc_score body
       \<and> sc_game_metadata b = sc_game_metadata body"
  using assms
  by (auto simp: ScoreCreate_def Let_def field_player_name_def field_score_def
        field_game_metadata_def validate_player_name_def validate_metadata_def
        split: sum.splits if_splits option.splits)

lemma post_scores_valid:
  assumes "get_game_by_api_key k d key = Some game" and "ScoreCreate j body = Inr b"
  shows "post_scores k j now body key d
     = (Inr \<lparr>s_id = int (length (scores d)) + 1, s_game_id = g_id game,
             s_player_name = sc_player_name b, s_score = sc_score b,
             s_game_metadata = sc_game_metadata b, s_created_at = now\<rparr>,
        d\<lparr>scores := scores d @
          [\<lparr>s_id = int (length (scores d)) + 1, s_game_id = g_id game,
             s_player_name = sc_player_name b, s_score = sc_score b,
             s_game_metadata = sc_game_metadata b, s_created_at = now\<rparr>]\<rparr>)"
  using assms by (simp add: post_scores_def submit_score_def Let_def)

lemma submit_all_rows:
  assumes "get_game_by_api_key k d key = Some game"
    and "\<forall>x \<in> set xs. \<exists>b. ScoreCreate j (snd x) = Inr b \<and> sc_player_name b = p"
  shows "get_game_by_api_key k (submit_all k j key xs d) key = Some game
       \<and> map s_score (player_rows (g_id game) p (submit_all k j key xs d))
           = map s_score (player_rows (g_id game) p d) @ map (\<lambda>x. sc_score (snd x)) xs
       \<and> map s_created_at (player_rows (g_id game) p (submit_all k j key xs d))
           = map s_created_at (player_rows (g_id game) p d) @ map fst xs"
  using assms
proof (induction xs arbitrary: d)
  case Nil
  then show ?case by simp
next
  case (Cons x xs)
  obtain now body where x: "x = (now, body)" by (cases x)
  from Cons.prems(2) x obtain b where b: "ScoreCreate j body = Inr b" "sc_player_name b = p"
    by auto
  have sc: "sc_score b = sc_score body" using ScoreCreate_Inr[OF b(1)] by simp
  let ?row = "\<lparr>s_id = int (length (scores d)) + 1, s_game_id = g_id game,
             s_player_name = p, s_score = sc_score body,
             s_game_metadata = sc_game_metadata b, s_created_at = now\<rparr>"
  let ?d = "d\<lparr>scores := scores d @ [?row]\<rparr>"
  have step: "snd (post_scores k j now body key d) = ?d"
    by (simp add: post_scores_valid[OF Cons.prems(1) b(1)] sc b(2))
  have key': "get_game_by_api_key k ?d key = Some game"
    using Cons.prems(1) by (simp add: get_game_by_api_key_def)
  have rows: "player_rows (g_id game) p ?d = player_rows (g_id game) p d @ [?row]"
    by (simp add: player_rows_def)
  have prem: "\<forall>x \<in> set xs. \<exists>b. ScoreCreate j (snd x) = Inr b \<and> sc_player_name b = p"
    using Cons.prems(2) by simp
  have unfold: "submit_all k j key (x # xs) d = submit_all k j key xs ?d"
    by (simp only: x submit_all.simps step)
  show ?case
    unfolding unfold using Cons.IH[OF key' prem] unfolding rows by (simp add: x)
qed

text \<open>
  C3. For a key that resolves to a game, the statistics of a player are \<open>NotFound\<close> exactly
  when the game has no event of that name. Otherwise they are returned, with the number
  of the player's events, the greatest and the least of their scores, the rounded quotient
  of the sum of the scores by their number, and the earliest and the latest of their
  timestamps. When a player without events gets a run of valid submissions, these are the
  number, the scores and the times of the run. The division to a float and \<open>round\<close> are
  Python's, here \<open>truediv\<close> and \<open>round_f\<close>.
\<close>

theorem player_stats_aggregates:
  fixes truediv :: "int \<Rightarrow> int \<Rightarrow> 'f" and round_f :: "'f \<Rightarrow> int \<Rightarrow> 'f"
    and d :: db and game :: game and p :: string
  assumes key: "get_game_by_api_key k d api_key = Some game"
  defines "evs \<equiv> filter (\<lambda>s. s_game_id s = g_id game \<and> s_player_name s = p) (scores d)"
  shows "(get_player_stats k truediv round_f p api_key d = Inl (player_not_found p) \<longleftrightarrow> evs = [])
   \<and> (evs \<noteq> [] \<longrightarrow>
        (\<exists>st. get_player_stats k truediv round_f p api_key d = Inr st
           \<and> ps_total_scores st = int (length evs)
           \<and> ps_best_score st = Max (set (map s_score evs))
           \<and> ps_worst_score st = Min (set (map s_score evs))
           \<and> ps_average_score st
               = round_f (truediv (sum_list (map s_score evs)) (int (length evs))) 2
           \<and> ps_first_played st = Min (set (map s_created_at evs))
           \<and> ps_last_played st = Max (set (map s_created_at evs))))
   \<and> (evs = [] \<and> xs \<noteq> []
        \<and> (\<forall>x \<in> set xs. \<exists>b. ScoreCreate j (snd x) = Inr b \<and> sc_player_name b = p) \<longrightarrow>
        (\<exists>st. get_player_stats k truediv round_f p api_key (submit_all k j api_key xs d) = Inr st
           \<and> ps_total_scores st = int (length xs)
           \<and> ps_best_score st = Max (set (map (\<lambda>x. sc_score (snd x)) xs))
           \<and> ps_worst_score st = Min (set (map (\<lambda>x. sc_score (snd x)) xs))
           \<and> ps_average_score st
               = round_f (truediv (sum_list (map (\<lambda>x. sc_score (snd x)) xs)) (int (length xs))) 2
           \<and> ps_first_played st = Min (set (map fst xs))
           \<and> ps_last_played st = Max (set (map fst xs))))"
proof (intro conjI impI)
  have evs: "evs = player_rows (g_id game) p d"
    by (simp add: evs_def player_rows_def)
  show "get_player_stats k truediv round_f p api_key d = Inl (player_not_found p) \<longleftrightarrow> evs = []"
    by (simp add: get_player_stats_Some[OF key] evs Let_def)
  show "\<exists>st. get_player_stats k truediv round_f p api_key d = Inr st
           \<and> ps_total_scores st = int (length evs)
           \<and> ps_best_score st = Max (set (map s_score evs))
           \<and> ps_worst_score st = Min (set (map s_score evs))
           \<and> ps_average_score st
               = round_f (truediv (sum_list (map s_score evs)) (int (length evs))) 2
           \<and> ps_first_played st = Min (set (map s_created_at evs))
           \<and> ps_last_played st = Max (set (map s_created_at evs))"
    if "evs \<noteq> []"
    using that by (simp add: get_player_stats_Some[OF key] evs Let_def)
  show "\<exists>st. get_player_stats k truediv round_f p api_key (submit_all k j api_key xs d) = Inr st
           \<and> ps_total_scores st = int (length xs)
           \<and> ps_best_score st = Max (set (map (\<lambda>x. sc_score (snd x)) xs))
           \<and> ps_worst_score st = Min (set (map (\<lambda>x. sc_score (snd x)) xs))
           \<and> ps_average_score st
               = round_f (truediv (sum_list (map (\<lambda>x. sc_score (snd x)) xs)) (int (length xs))) 2
           \<and> ps_first_played st = Min (set (map fst xs))
           \<and> ps_last_played st = Max (set (map fst xs))"
    if h: "evs = [] \<and> xs \<noteq> []
        \<and> (\<forall>x \<in> set xs. \<exists>b. ScoreCreate j (snd x) = Inr b \<and> sc_player_name b = p)"
  proof -
    let ?d = "submit_all k j api_key xs d"
    let ?rows = "player_rows (g_id game) p ?d"
    from h have valid: "\<forall>x \<in> set xs. \<exists>b. ScoreCreate j (snd x) = Inr b \<and> sc_player_name b = p"
      by blast
    from submit_all_rows[OF key valid] h have
      key': "get_game_by_api_key k ?d api_key = Some game"
      and sc: "map s_score ?rows = map (\<lambda>x. sc_score (snd x)) xs"
      and ts: "map s_created_at ?rows = map fst xs"
      by (simp_all add: evs)
    have len: "length ?rows = length xs"
      using sc by (metis length_map)
    then have ne: "?rows \<noteq> []" using h by auto
    show ?thesis
      using ne by (simp add: get_player_stats_Some[OF key'] Let_def sc ts len del: set_map)
  qed
qed

lemma rank_query_card:
  "rank_query gid p b d
     = int (card {q. q \<noteq> p \<and> (\<exists>s \<in> set (scores d). s_game_id s = gid \<and> s_player_name s = q
                                   \<and> b < s_score s)})"
proof -
  have "set (map s_player_name
          (filter (\<lambda>s. s_score s > b)
            (filter (\<lambda>s. s_game_id s = gid \<and> s_player_name s \<noteq> p) (scores d))))
        = {q. q \<noteq> p \<and> (\<exists>s \<in> set (scores d). s_game_id s = gid \<and> s_player_name s = q
                                   \<and> b < s_score s)}"
    by auto
  then show ?thesis
    unfolding rank_query_def length_remdups_card_conv by simp
qed

lemma best_bounds_own:
  assumes "s \<in> set (player_rows gid p d)"
  shows "s_score s \<le> Max (set (map s_score (player_rows gid p d)))"
  using assms by (intro Max_ge) auto

lemma better_players_any:
  "{q. q \<noteq> p \<and> (\<exists>s \<in> set (scores d). s_game_id s = gid \<and> s_player_name s = q
         \<and> Max (set (map s_score (player_rows gid p d))) < s_score s)}
   = {q. \<exists>s \<in> set (scores d). s_game_id s = gid \<and> s_player_name s = q
         \<and> Max (set (map s_score (player_rows gid p d))) < s_score s}"
proof -
  have "\<not> Max (set (map s_score (player_rows gid p d))) < s_score s"
    if "s \<in> set (scores d)" "s_game_id s = gid" "s_player_name s = p" for s
  proof -
    have "s \<in> set (player_rows gid p d)" using that by (simp add: player_rows_def)
    from best_bounds_own[OF this] show ?thesis by simp
  qed
  then show ?thesis by blast
qed

text \<open>
  C4. The rank in a player's statistics is one more than the number of other player names
  of the game that have an event with a score above the player's best score, which is the
  greatest score of the player's events; two players of the game with the same best score
  have the same rank.
\<close>

theorem player_rank:
  fixes truediv :: "int \<Rightarrow> int \<Rightarrow> 'f" and round_f :: "'f \<Rightarrow> int \<Rightarrow> 'f"
  assumes key: "get_game_by_api_key k d api_key = Some game"
    and st: "get_player_stats k truediv round_f p api_key d = Inr st"
  shows "ps_rank st
           = Some (int (card {q. q \<noteq> p \<and> (\<exists>s \<in> set (scores d). s_game_id s = g_id game
                              \<and> s_player_name s = q \<and> ps_best_score st < s_score s)}) + 1)
   \<and> ps_best_score st
       = Max (s_score ` {s \<in> set (scores d). s_game_id s = g_id game \<and> s_player_name s = p})
   \<and> (\<forall>p' st'. get_player_stats k truediv round_f p' api_key d = Inr st'
          \<and> ps_best_score st' = ps_best_score st \<longrightarrow> ps_rank st' = ps_rank st)"
proof -
  have fields: "ps_best_score s' = Max (set (map s_score (player_rows (g_id game) q d)))
      \<and> ps_rank s' = Some (rank_query (g_id game) q (ps_best_score s') d + 1)"
    if "get_player_stats k truediv round_f q api_key d = Inr s'" for q s'
    using that by (auto simp: get_player_stats_Some[OF key] Let_def split: if_splits)
  have rows: "set (map s_score (player_rows (g_id game) p d))
      = s_score ` {s \<in> set (scores d). s_game_id s = g_id game \<and> s_player_name s = p}"
    by (simp add: player_rows_def)
  have any: "ps_rank s' = Some (int (card {q'. \<exists>s \<in> set (scores d). s_game_id s = g_id game
         \<and> s_player_name s = q' \<and> ps_best_score s' < s_score s}) + 1)"
    if "get_player_stats k truediv round_f q api_key d = Inr s'" for q s'
    using fields[OF that] better_players_any[of q d "g_id game"] by (simp add: rank_query_card)
  have 1: "ps_rank st = Some (int (card {q. q \<noteq> p \<and> (\<exists>s \<in> set (scores d). s_game_id s = g_id game
                              \<and> s_player_name s = q \<and> ps_best_score st < s_score s)}) + 1)"
    using fields[OF st] by (simp add: rank_query_card)
  have 2: "ps_best_score st
       = Max (s_score ` {s \<in> set (scores d). s_game_id s = g_id game \<and> s_player_name s = p})"
    using fields[OF st] rows by simp
  have 3: "ps_rank st' = ps_rank st"
    if "get_player_stats k truediv round_f p' api_key d = Inr st' \<and> ps_best_score st' = ps_best_score st"
    for p' st'
    using any[of p' st'] any[OF st] that by simp
  show ?thesis using 1 2 3 by blast
qed

section \<open>The statistics of the examples\<close>

lemma tie_games: "games tie_db = [game_T, game_U]"
  by (simp add: tie_db_eq)

lemma sample_average: "sample_round (sample_truediv 2200 2) 2 = 1100"
  by (simp add: sample_round_def sample_truediv_def)

lemma rows_Alice:
  "games d = [game_T, game_U] \<Longrightarrow> scores d = scores tie_db \<or> scores d = scores example_db \<Longrightarrow>
   player_rows 1 ''Alice'' d = [row 1 1 ''Alice'' 1000 (t0 + 10), row 5 1 ''Alice'' 1200 (t0 + 50)]"
  by (auto simp: player_rows_def tie_db_eq example_db_eq row_def)

lemma stats_Alice:
  "get_player_stats sample_kdf sample_truediv sample_round ''Alice'' ''game_T'' tie_db
     = Inr \<lparr>ps_player_name = ''Alice'', ps_game_id = 1, ps_total_scores = 2,
            ps_best_score = 1200, ps_average_score = 1100, ps_worst_score = 1000,
            ps_rank = Some 2, ps_first_played = t0 + 10, ps_last_played = t0 + 50\<rparr>"
proof -
  have rank: "rank_query 1 ''Alice'' 1200 tie_db = 1"
    by (simp add: rank_query_def tie_db_eq row_def)
  have g: "g_id game_T = 1" by (simp add: game_T_def)
  show ?thesis
    unfolding get_player_stats_Some[OF resolve_T[OF tie_games]] g
      rows_Alice[OF tie_games disjI1[OF refl]] Let_def
    by (simp add: row_def rank sample_average)
qed

lemma stats_Dana:
  "get_player_stats sample_kdf sample_truediv sample_round ''Dana'' ''game_T'' tie_db
     = Inr \<lparr>ps_player_name = ''Dana'', ps_game_id = 1, ps_total_scores = 1,
            ps_best_score = 1200, ps_average_score = 1200, ps_worst_score = 1200,
            ps_rank = Some 2, ps_first_played = t0 + 60, ps_last_played = t0 + 60\<rparr>"
proof -
  have rank: "rank_query 1 ''Dana'' 1200 tie_db = 1"
    by (simp add: rank_query_def tie_db_eq row_def)
  have rows: "player_rows 1 ''Dana'' tie_db = [row 6 1 ''Dana'' 1200 (t0 + 60)]"
    by (simp add: player_rows_def tie_db_eq row_def)
  have g: "g_id game_T = 1" by (simp add: game_T_def)
  show ?thesis
    unfolding get_player_stats_Some[OF resolve_T[OF tie_games]] g rows Let_def
    by (simp add: row_def rank sample_round_def sample_truediv_def)
qed

text \<open>
  Alice has two events in the first game of the examples, and Erin has none. The same
  numbers come out when Alice's two submissions are a run on the store that has only the
  two games.
\<close>

theorem player_stats_aggregates_witness:
  "get_game_by_api_key sample_kdf example_db ''game_T'' = Some game_T
   \<and> (\<exists>st. get_player_stats sample_kdf sample_truediv sample_round ''Alice'' ''game_T'' example_db
             = Inr st
          \<and> ps_total_scores st = 2 \<and> ps_best_score st = 1200 \<and> ps_worst_score st = 1000
          \<and> ps_average_score st = 1100
          \<and> ps_first_played st = t0 + 10 \<and> ps_last_played st = t0 + 50)
   \<and> get_player_stats sample_kdf sample_truediv sample_round ''Erin'' ''game_T'' example_db
       = Inl (player_not_found ''Erin'')
   \<and> (\<exists>st. get_player_stats sample_kdf sample_truediv sample_round ''Alice'' ''game_T''
               (submit_all sample_kdf py_json_dumps ''game_T''
                  [(t0 + 10, \<lparr>sc_player_name = '' Alice '', sc_score = 1000,
                               sc_game_metadata = Some [(''test'', JBool True)]\<rparr>),
                   (t0 + 50, \<lparr>sc_player_name = ''Alice'', sc_score = 1200,
                               sc_game_metadata = Some [(''test'', JBool True)]\<rparr>)]
                  \<lparr>games = [game_T, game_U], scores = []\<rparr>)
             = Inr st
          \<and> ps_total_scores st = 2 \<and> ps_best_score st = 1200 \<and> ps_worst_score st = 1000
          \<and> ps_average_score st = 1100
          \<and> ps_first_played st = t0 + 10 \<and> ps_last_played st = t0 + 50)"
proof -
  have key: "get_game_by_api_key sample_kdf example_db ''game_T'' = Some game_T"
    by (rule resolve_T[OF example_games])
  have g: "g_id game_T = 1" by (simp add: game_T_def)
  have alice: "filter (\<lambda>s. s_game_id s = g_id game_T \<and> s_player_name s = ''Alice'') (scores example_db)
      = [row 1 1 ''Alice'' 1000 (t0 + 10), row 5 1 ''Alice'' 1200 (t0 + 50)]"
    using rows_Alice[OF example_games disjI2[OF refl]] by (simp add: player_rows_def g)
  have erin: "filter (\<lambda>s. s_game_id s = g_id game_T \<and> s_player_name s = ''Erin'') (scores example_db) = []"
    by (simp add: example_db_eq row_def)
  note a = player_stats_aggregates[OF key, where p = "''Alice''" and truediv = sample_truediv
      and round_f = sample_round and xs = "[]" and j = py_json_dumps]
  from a have 1: "\<exists>st. get_player_stats sample_kdf sample_truediv sample_round ''Alice'' ''game_T'' example_db
             = Inr st
          \<and> ps_total_scores st = 2 \<and> ps_best_score st = 1200 \<and> ps_worst_score st = 1000
          \<and> ps_average_score st = 1100
          \<and> ps_first_played st = t0 + 10 \<and> ps_last_played st = t0 + 50"
    unfolding alice by (simp add: row_def sample_average)
  note b = player_stats_aggregates[OF key, where p = "''Erin''" and truediv = sample_truediv
      and round_f = sample_round and xs = "[]" and j = py_json_dumps]
  from b have 2: "get_player_stats sample_kdf sample_truediv sample_round ''Erin'' ''game_T'' example_db
       = Inl (player_not_found ''Erin'')"
    unfolding erin by simp
  let ?d = "\<lparr>games = [game_T, game_U], scores = []\<rparr>"
  let ?xs = "[(t0 + 10, \<lparr>sc_player_name = '' Alice '', sc_score = 1000,
                               sc_game_metadata = Some [(''test'', JBool True)]\<rparr>),
              (t0 + 50, \<lparr>sc_player_name = ''Alice'', sc_score = 1200,
                               sc_game_metadata = Some [(''test'', JBool True)]\<rparr>)]"
  have key0: "get_game_by_api_key sample_kdf ?d ''game_T'' = Some game_T"
    by (rule resolve_T) simp
  have valid: "\<forall>x \<in> set ?xs. \<exists>b. ScoreCreate py_json_dumps (snd x) = Inr b \<and> sc_player_name b = ''Alice''"
    by (simp add: valid_body strip_ex)
  note c = player_stats_aggregates[OF key0, where p = "''Alice''" and truediv = sample_truediv
      and round_f = sample_round and xs = ?xs and j = py_json_dumps]
  from c valid have 3: "\<exists>st. get_player_stats sample_kdf sample_truediv sample_round ''Alice'' ''game_T''
               (submit_all sample_kdf py_json_dumps ''game_T'' ?xs ?d) = Inr st
          \<and> ps_total_scores st = 2 \<and> ps_best_score st = 1200 \<and> ps_worst_score st = 1000
          \<and> ps_average_score st = 1100
          \<and> ps_first_played st = t0 + 10 \<and> ps_last_played st = t0 + 50"
    by (simp add: sample_average)
  from key 1 2 3 show ?thesis by blast
qed

text \<open>
  With Dana's 1200 in the first game, Alice and Dana both have the best score 1200 and
  the rank 2: Bob is the one player above them.
\<close>

theorem player_rank_witness:
  "get_game_by_api_key sample_kdf tie_db ''game_T'' = Some game_T
   \<and> get_player_stats sample_kdf sample_truediv sample_round ''Alice'' ''game_T'' tie_db
     = Inr \<lparr>ps_player_name = ''Alice'', ps_game_id = 1, ps_total_scores = 2,
            ps_best_score = 1200, ps_average_score = 1100, ps_worst_score = 1000,
            ps_rank = Some 2, ps_first_played = t0 + 10, ps_last_played = t0 + 50\<rparr>
   \<and> get_player_stats sample_kdf sample_truediv sample_round ''Dana'' ''game_T'' tie_db
     = Inr \<lparr>ps_player_name = ''Dana'', ps_game_id = 1, ps_total_scores = 1,
            ps_best_score = 1200, ps_average_score = 1200, ps_worst_score = 1200,
            ps_rank = Some 2, ps_first_played = t0 + 60, ps_last_played = t0 + 60\<rparr>
   \<and> card {q. q \<noteq> ''Alice'' \<and> (\<exists>s \<in> set (scores tie_db). s_game_id s = g_id game_T
                              \<and> s_player_name s = q \<and> 1200 < s_score s)} = 1"
proof -
  have key: "get_game_by_api_key sample_kdf tie_db ''game_T'' = Some game_T"
    by (rule resolve_T[OF tie_games])
  note a = player_rank[OF key stats_Alice]
  from a have "Some (2::int) = Some (int (card {q. q \<noteq> ''Alice'' \<and> (\<exists>s \<in> set (scores tie_db).
        s_game_id s = g_id game_T \<and> s_player_name s = q \<and> 1200 < s_score s)}) + 1)"
    by simp
  then have "card {q. q \<noteq> ''Alice'' \<and> (\<exists>s \<in> set (scores tie_db). s_game_id s = g_id game_T
                              \<and> s_player_name s = q \<and> 1200 < s_score s)} = 1"
    by simp
  with key stats_Alice stats_Dana show ?thesis by blast
qed

section \<open>Names as stored and names as asked for\<close>

lemma last_dropWhile:
  "dropWhile P xs \<noteq> [] \<Longrightarrow> last (dropWhile P xs) = last xs"
  by (induction xs) (auto split: if_splits)

lemma strip_ends:
  assumes "strip v \<noteq> []"
  shows "\<not> isspace (hd (strip v)) \<and> \<not> isspace (last (strip v))"
proof -
  let ?w = "dropWhile isspace v"
  let ?u = "dropWhile isspace (rev ?w)"
  have u: "?u \<noteq> []" using assms by (simp add: strip_def)
  have w: "?w \<noteq> []"
  proof
    assume e: "?w = []"
    have "?u = []" unfolding e by simp
    with u show False by contradiction
  qed
  have "\<not> isspace (hd ?u)" using u by (rule hd_dropWhile)
  then have l: "\<not> isspace (last (strip v))"
    using u by (simp add: strip_def last_rev)
  have "last ?u = last (rev ?w)" using u by (rule last_dropWhile)
  also have "\<dots> = hd ?w" using w by (simp add: last_rev)
  finally have "hd (strip v) = hd ?w" using u by (simp add: strip_def hd_rev)
  moreover have "\<not> isspace (hd ?w)" using w by (rule hd_dropWhile)
  ultimately show ?thesis using l by simp
qed

lemma strip_fixed:
  assumes "v = [] \<or> (\<not> isspace (hd v) \<and> \<not> isspace (last v))"
  shows "strip v = v"
proof (cases "v = []")
  case True
  then show ?thesis by (simp add: strip_def)
next
  case False
  with assms have h: "\<not> isspace (hd v)" and l: "\<not> isspace (last v)" by auto
  have 1: "dropWhile isspace v = v" using h by (simp add: dropWhile_eq_self_iff)
  have "hd (rev v) = last v" using False by (simp add: hd_rev)
  then have 2: "dropWhile isspace (rev v) = rev v" using l by (simp add: dropWhile_eq_self_iff)
  show ?thesis by (simp add: strip_def 1 2)
qed

lemma strip_idem: "strip (strip v) = strip v"
  using strip_ends[of v] by (intro strip_fixed) auto

lemma not_found_unless_stored:
  assumes "get_game_by_api_key k d key = Some game"
    and "\<forall>s \<in> set (scores d). s_game_id s = g_id game \<longrightarrow> s_player_name s \<noteq> p"
  shows "get_player_stats k truediv round_f p key d = Inl (player_not_found p)"
proof -
  have "player_rows (g_id game) p d = []"
    using assms(2) by (auto simp: player_rows_def filter_empty_conv)
  then show ?thesis by (simp add: get_player_stats_Some[OF assms(1)])
qed

text \<open>
  C10. A submission stores the trimmed name. The statistics compare the name they are asked
  for with the stored names as it is: a name that no event of the game carries is
  \<open>NotFound\<close>, and so is, in a store whose names are all trimmed, every name with
  whitespace at an end, whatever events its trimmed form has.
\<close>

theorem stats_name_is_exact:
  fixes truediv :: "int \<Rightarrow> int \<Rightarrow> 'f" and round_f :: "'f \<Rightarrow> int \<Rightarrow> 'f"
  shows "(post_scores k j now body key d = (Inr ev, d')
        \<longrightarrow> s_player_name ev = strip (sc_player_name body)
            \<and> strip (s_player_name ev) = s_player_name ev
            \<and> scores d' = scores d @ [ev])
   \<and> (get_game_by_api_key k d key = Some game
        \<and> (\<forall>s \<in> set (scores d). s_game_id s = g_id game \<longrightarrow> s_player_name s \<noteq> p)
        \<longrightarrow> get_player_stats k truediv round_f p key d = Inl (player_not_found p))
   \<and> (get_game_by_api_key k d key = Some game
        \<and> (\<forall>s \<in> set (scores d). strip (s_player_name s) = s_player_name s)
        \<and> strip p \<noteq> p
        \<longrightarrow> get_player_stats k truediv round_f p key d = Inl (player_not_found p))"
proof (intro conjI impI)
  assume post: "post_scores k j now body key d = (Inr ev, d')"
  then obtain b where b: "ScoreCreate j body = Inr b" and sub: "submit_score k now b key d = (Inr ev, d')"
    by (auto simp: post_scores_def split: sum.splits)
  from sub have "s_player_name ev = sc_player_name b" "scores d' = scores d @ [ev]"
    by (auto simp: submit_score_def Let_def split: option.splits)
  moreover have "sc_player_name b = strip (sc_player_name body)"
    using ScoreCreate_Inr[OF b] by simp
  ultimately show "s_player_name ev = strip (sc_player_name body)"
    "strip (s_player_name ev) = s_player_name ev" "scores d' = scores d @ [ev]"
    by (simp_all add: strip_idem)
next
  assume "get_game_by_api_key k d key = Some game
        \<and> (\<forall>s \<in> set (scores d). s_game_id s = g_id game \<longrightarrow> s_player_name s \<noteq> p)"
  then show "get_player_stats k truediv round_f p key d = Inl (player_not_found p)"
    using not_found_unless_stored by blast
next
  assume h: "get_game_by_api_key k d key = Some game
        \<and> (\<forall>s \<in> set (scores d). strip (s_player_name s) = s_player_name s)
        \<and> strip p \<noteq> p"
  then have "\<forall>s \<in> set (scores d). s_game_id s = g_id game \<longrightarrow> s_player_name s \<noteq> p"
    by auto
  with h show "get_player_stats k truediv round_f p key d = Inl (player_not_found p)"
    using not_found_unless_stored by blast
qed

text \<open>
  The name \<open>Alice\<close> between two spaces is stored as \<open>Alice\<close>; asked for between two spaces,
  or in lower case, it is \<open>NotFound\<close> in the store of the examples, where Alice has events.
\<close>

theorem stats_name_is_exact_witness:
  "post_scores sample_kdf py_json_dumps (t0 + 10)
       \<lparr>sc_player_name = '' Alice '', sc_score = 1000,
        sc_game_metadata = Some [(''test'', JBool True)]\<rparr> ''game_T''
       \<lparr>games = [game_T, game_U], scores = []\<rparr>
     = (Inr (row 1 1 ''Alice'' 1000 (t0 + 10)),
        \<lparr>games = [game_T, game_U], scores = [row 1 1 ''Alice'' 1000 (t0 + 10)]\<rparr>)
   \<and> strip '' Alice '' = ''Alice''
   \<and> get_game_by_api_key sample_kdf example_db ''game_T'' = Some game_T
   \<and> player_rows (g_id game_T) ''Alice'' example_db \<noteq> []
   \<and> strip '' Alice '' \<noteq> '' Alice ''
   \<and> get_player_stats sample_kdf sample_truediv sample_round '' Alice '' ''game_T'' example_db
       = Inl (player_not_found '' Alice '')
   \<and> get_player_stats sample_kdf sample_truediv sample_round ''alice'' ''game_T'' example_db
       = Inl (player_not_found ''alice'')"
proof -
  let ?d = "\<lparr>games = [game_T, game_U], scores = []\<rparr>"
  let ?body = "\<lparr>sc_player_name = '' Alice '', sc_score = 1000,
        sc_game_metadata = Some [(''test'', JBool True)]\<rparr>"
  have key0: "get_game_by_api_key sample_kdf ?d ''game_T'' = Some game_T"
    by (rule resolve_T) simp
  have body: "ScoreCreate py_json_dumps ?body
     = Inr \<lparr>sc_player_name = ''Alice'', sc_score = 1000,
            sc_game_metadata = Some [(''test'', JBool True)]\<rparr>"
    by (simp add: valid_body strip_ex)
  have post: "post_scores sample_kdf py_json_dumps (t0 + 10) ?body ''game_T'' ?d
     = (Inr (row 1 1 ''Alice'' 1000 (t0 + 10)),
        \<lparr>games = [game_T, game_U], scores = [row 1 1 ''Alice'' 1000 (t0 + 10)]\<rparr>)"
    unfolding post_scores_valid[OF key0 body] by (simp add: row_def game_T_def)
  have key: "get_game_by_api_key sample_kdf example_db ''game_T'' = Some game_T"
    by (rule resolve_T[OF example_games])
  have rows: "player_rows (g_id game_T) ''Alice'' example_db \<noteq> []"
    using rows_Alice[OF example_games disjI2[OF refl]] by (simp add: game_T_def)
  have ne: "strip '' Alice '' \<noteq> '' Alice ''" by (simp add: strip_ex)
  have stripped: "\<forall>s \<in> set (scores example_db). strip (s_player_name s) = s_player_name s"
    by (simp add: example_db_eq row_def strip_ex)
  have lower: "\<forall>s \<in> set (scores example_db). s_game_id s = g_id game_T \<longrightarrow> s_player_name s \<noteq> ''alice''"
    by (simp add: example_db_eq row_def)
  note a = stats_name_is_exact[where k = sample_kdf and key = "''game_T''" and d = example_db
      and game = game_T and p = "'' Alice ''" and truediv = sample_truediv and round_f = sample_round]
  note b = stats_name_is_exact[where k = sample_kdf and key = "''game_T''" and d = example_db
      and game = game_T and p = "''alice''" and truediv = sample_truediv and round_f = sample_round]
  from a key stripped ne
  have 1: "get_player_stats sample_kdf sample_truediv sample_round '' Alice '' ''game_T'' example_db
       = Inl (player_not_found '' Alice '')" by blast
  from b key lower
  have 2: "get_player_stats sample_kdf sample_truediv sample_round ''alice'' ''game_T'' example_db
       = Inl (player_not_found ''alice'')" by blast
  from post key rows ne 1 2 show ?thesis by (simp add: strip_ex)
qed

section \<open>One tenant per request\<close>

lemma scope_of_tenant:
  "filter (in_scope gid df) ss = filter (in_scope gid df) (filter (\<lambda>s. s_game_id s = gid) ss)"
  by (induction ss) (auto simp: in_scope_def)

lemma player_rows_of_tenant:
  "player_rows gid p d = filter (\<lambda>s. s_player_name s = p) (filter (\<lambda>s. s_game_id s = gid) (scores d))"
  by (simp add: player_rows_def conj_commute)

lemma rank_query_of_tenant:
  "rank_query gid p b d
     = int (length (remdups (map s_player_name
         (filter (\<lambda>s. s_player_name s \<noteq> p \<and> s_score s > b)
            (filter (\<lambda>s. s_game_id s = gid) (scores d))))))"
  by (simp add: rank_query_def conj_commute conj_left_commute)

lemma reads_of_tenant:
  assumes "games d1 = games d2"
    and "get_game_by_api_key k d1 key = Some game"
    and "filter (\<lambda>s. s_game_id s = g_id game) (scores d1)
           = filter (\<lambda>s. s_game_id s = g_id game) (scores d2)"
  shows "get_leaderboard k now limit period key d1 = get_leaderboard k now limit period key d2"
    and "get_player_stats k truediv round_f p key d1 = get_player_stats k truediv round_f p key d2"
proof -
  have key2: "get_game_by_api_key k d2 key = Some game"
    using assms(1,2) by (simp add: get_game_by_api_key_def)
  have scope: "filter (in_scope (g_id game) df) (scores d1)
             = filter (in_scope (g_id game) df) (scores d2)" for df
    using scope_of_tenant[of "g_id game" df "scores d1"]
      scope_of_tenant[of "g_id game" df "scores d2"] assms(3) by simp
  show "get_leaderboard k now limit period key d1 = get_leaderboard k now limit period key d2"
    by (simp add: get_leaderboard_Some[OF assms(2)] get_leaderboard_Some[OF key2]
          leaderboard_query_def total_query_def scope)
  have rows: "player_rows (g_id game) p d1 = player_rows (g_id game) p d2"
    by (simp add: player_rows_of_tenant assms(3))
  have rank: "rank_query (g_id game) p b d1 = rank_query (g_id game) p b d2" for b
    by (simp add: rank_query_of_tenant assms(3))
  show "get_player_stats k truediv round_f p key d1 = get_player_stats k truediv round_f p key d2"
    by (simp add: get_player_stats_Some[OF assms(2)] get_player_stats_Some[OF key2] rows rank Let_def)
qed

text \<open>
  C9. A key that resolves to no game gets \<open>Unauthorized\<close> from the leaderboard, from the
  statistics and from a submission, which leaves the store as it was. For a key that
  resolves to a game, the leaderboard and the statistics are the same in any two stores
  that have the same games and the same events of that game, whatever events the other
  games have in the one and in the other; and a submission adds one event, of that game,
  and changes no other row.
\<close>

theorem tenant_isolation:
  fixes truediv :: "int \<Rightarrow> int \<Rightarrow> 'f" and round_f :: "'f \<Rightarrow> int \<Rightarrow> 'f"
  shows "(get_game_by_api_key k d1 key = None
        \<longrightarrow> get_leaderboard k now limit period key d1 = Inl Unauthorized
            \<and> get_player_stats k truediv round_f p key d1 = Inl Unauthorized
            \<and> submit_score k now score_data key d1 = (Inl Unauthorized, d1))
   \<and> (get_game_by_api_key k d1 key = Some game \<and> games d1 = games d2
        \<and> filter (\<lambda>s. s_game_id s = g_id game) (scores d1)
            = filter (\<lambda>s. s_game_id s = g_id game) (scores d2)
        \<longrightarrow> get_leaderboard k now limit period key d1 = get_leaderboard k now limit period key d2
            \<and> get_player_stats k truediv round_f p key d1
                = get_player_stats k truediv round_f p key d2)
   \<and> (get_game_by_api_key k d1 key = Some game
        \<longrightarrow> (\<exists>ev. submit_score k now score_data key d1 = (Inr ev, d1\<lparr>scores := scores d1 @ [ev]\<rparr>)
                 \<and> s_game_id ev = g_id game))"
proof (intro conjI impI)
  assume "get_game_by_api_key k d1 key = None"
  then show "get_leaderboard k now limit period key d1 = Inl Unauthorized"
    "get_player_stats k truediv round_f p key d1 = Inl Unauthorized"
    "submit_score k now score_data key d1 = (Inl Unauthorized, d1)"
    by (simp_all add: get_leaderboard_def get_player_stats_def submit_score_def)
next
  assume h: "get_game_by_api_key k d1 key = Some game \<and> games d1 = games d2
        \<and> filter (\<lambda>s. s_game_id s = g_id game) (scores d1)
            = filter (\<lambda>s. s_game_id s = g_id game) (scores d2)"
  then show "get_leaderboard k now limit period key d1 = get_leaderboard k now limit period key d2"
    "get_player_stats k truediv round_f p key d1 = get_player_stats k truediv round_f p key d2"
    using reads_of_tenant[of d1 d2 k key game] by blast+
next
  assume "get_game_by_api_key k d1 key = Some game"
  then show "\<exists>ev. submit_score k now score_data key d1 = (Inr ev, d1\<lparr>scores := scores d1 @ [ev]\<rparr>)
                 \<and> s_game_id ev = g_id game"
    by (simp add: submit_score_def Let_def)
qed

lemma resolve_X:
  "games d = [game_T, game_U] \<Longrightarrow> get_game_by_api_key sample_kdf d ''game_X'' = None"
proof -
  have hX: "hash_api_key sample_kdf ''game_X''
              = ''67616d655f586869676873636f72655f6170695f73616c745f32303235''"
    by (simp add: hash_api_key_def sample_kdf_def bytes_hex_def hex_digit_def)
  show "games d = [game_T, game_U] \<Longrightarrow> get_game_by_api_key sample_kdf d ''game_X'' = None"
    by (simp add: get_game_by_api_key_def verify_api_key_def hX game_T_def game_U_def)
qed

text \<open>
  No game has the key \<open>game_X\<close>. The store of the examples and a store where the second
  game has another event instead of Zed's answer the first game alike.
\<close>

theorem tenant_isolation_witness:
  "get_game_by_api_key sample_kdf example_db ''game_X'' = None
   \<and> get_leaderboard sample_kdf (t0 + 100) 10 None ''game_X'' example_db = Inl Unauthorized
   \<and> get_player_stats sample_kdf sample_truediv sample_round ''Alice'' ''game_X'' example_db
       = Inl Unauthorized
   \<and> submit_score sample_kdf (t0 + 100)
         \<lparr>sc_player_name = ''Alice'', sc_score = 7, sc_game_metadata = None\<rparr> ''game_X'' example_db
       = (Inl Unauthorized, example_db)
   \<and> get_game_by_api_key sample_kdf example_db ''game_T'' = Some game_T
   \<and> games example_db = [game_T, game_U]
   \<and> filter (\<lambda>s. s_game_id s = g_id game_T) (scores example_db)
       = filter (\<lambda>s. s_game_id s = g_id game_T)
           [row 1 1 ''Alice'' 1000 (t0 + 10), row 2 1 ''Bob'' 1500 (t0 + 20),
            row 3 1 ''Charlie'' 900 (t0 + 30), row 5 1 ''Alice'' 1200 (t0 + 50),
            row 6 2 ''Alice'' 999999 (t0 + 60)]
   \<and> get_leaderboard sample_kdf (t0 + 100) 10 None ''game_T'' example_db
       = get_leaderboard sample_kdf (t0 + 100) 10 None ''game_T''
           \<lparr>games = [game_T, game_U],
            scores = [row 1 1 ''Alice'' 1000 (t0 + 10), row 2 1 ''Bob'' 1500 (t0 + 20),
                      row 3 1 ''Charlie'' 900 (t0 + 30), row 5 1 ''Alice'' 1200 (t0 + 50),
                      row 6 2 ''Alice'' 999999 (t0 + 60)]\<rparr>
   \<and> get_player_stats sample_kdf sample_truediv sample_round ''Alice'' ''game_T'' example_db
       = get_player_stats sample_kdf sample_truediv sample_round ''Alice'' ''game_T''
           \<lparr>games = [game_T, game_U],
            scores = [row 1 1 ''Alice'' 1000 (t0 + 10), row 2 1 ''Bob'' 1500 (t0 + 20),
                      row 3 1 ''Charlie'' 900 (t0 + 30), row 5 1 ''Alice'' 1200 (t0 + 50),
                      row 6 2 ''Alice'' 999999 (t0 + 60)]\<rparr>
   \<and> (\<exists>ev. submit_score sample_kdf (t0 + 100)
              \<lparr>sc_player_name = ''Alice'', sc_score = 7, sc_game_metadata = None\<rparr> ''game_T''
              example_db
            = (Inr ev, example_db\<lparr>scores := scores example_db @ [ev]\<rparr>)
          \<and> s_game_id ev = g_id game_T)"
proof -
  let ?d2 = "\<lparr>games = [game_T, game_U],
            scores = [row 1 1 ''Alice'' 1000 (t0 + 10), row 2 1 ''Bob'' 1500 (t0 + 20),
                      row 3 1 ''Charlie'' 900 (t0 + 30), row 5 1 ''Alice'' 1200 (t0 + 50),
                      row 6 2 ''Alice'' 999999 (t0 + 60)]\<rparr>"
  let ?sd = "\<lparr>sc_player_name = ''Alice'', sc_score = 7, sc_game_metadata = None\<rparr>"
  have none: "get_game_by_api_key sample_kdf example_db ''game_X'' = None"
    by (rule resolve_X[OF example_games])
  have key: "get_game_by_api_key sample_kdf example_db ''game_T'' = Some game_T"
    by (rule resolve_T[OF example_games])
  have gs: "games example_db = games ?d2" by (simp add: example_games)
  have same: "filter (\<lambda>s. s_game_id s = g_id game_T) (scores example_db)
       = filter (\<lambda>s. s_game_id s = g_id game_T) (scores ?d2)"
    by (simp add: example_db_eq row_def game_T_def)
  note a = tenant_isolation[where k = sample_kdf and ?d1.0 = example_db and key = "''game_X''"
      and now = "t0 + 100" and limit = 10 and period = None and p = "''Alice''"
      and truediv = sample_truediv and round_f = sample_round and score_data = ?sd]
  note b = tenant_isolation[where k = sample_kdf and ?d1.0 = example_db and key = "''game_T''"
      and ?d2.0 = ?d2 and game = game_T
      and now = "t0 + 100" and limit = 10 and period = None and p = "''Alice''"
      and truediv = sample_truediv and round_f = sample_round and score_data = ?sd]
  from a none have 1: "get_leaderboard sample_kdf (t0 + 100) 10 None ''game_X'' example_db = Inl Unauthorized"
    "get_player_stats sample_kdf sample_truediv sample_round ''Alice'' ''game_X'' example_db
       = Inl Unauthorized"
    "submit_score sample_kdf (t0 + 100) ?sd ''game_X'' example_db = (Inl Unauthorized, example_db)"
    by blast+
  from b key gs same have 2:
    "get_leaderboard sample_kdf (t0 + 100) 10 None ''game_T'' example_db
       = get_leaderboard sample_kdf (t0 + 100) 10 None ''game_T'' ?d2"
    "get_player_stats sample_kdf sample_truediv sample_round ''Alice'' ''game_T'' example_db
       = get_player_stats sample_kdf sample_truediv sample_round ''Alice'' ''game_T'' ?d2"
    by blast+
  from b key have 3: "\<exists>ev. submit_score sample_kdf (t0 + 100) ?sd ''game_T'' example_db
            = (Inr ev, example_db\<lparr>scores := scores example_db @ [ev]\<rparr>)
          \<and> s_game_id ev = g_id game_T"
    by blast
  from none key 1 2 3 example_games same show ?thesis by simp
qed

section \<open>A tie on the leaderboard and in the statistics\<close>

text \<open>
  With Dana's 1200 in the first game, Alice and Dana have the ranks 2 and 3 on the
  leaderboard (which of the two comes first is the engine's choice, here the order of the
  groups), while the statistics give rank 2 to both.
\<close>

lemma tie_leaderboard:
  "get_leaderboard sample_kdf (t0 + 100) 10 None ''game_T'' tie_db
     = Inr \<lparr>lr_game_id = 1, lr_game_name = ''Test Game'',
        lr_entries =
          [\<lparr>le_rank = 1, le_player_name = ''Bob'', le_score = 1500, le_created_at = t0 + 20\<rparr>,
           \<lparr>le_rank = 2, le_player_name = ''Alice'', le_score = 1200, le_created_at = t0 + 50\<rparr>,
           \<lparr>le_rank = 3, le_player_name = ''Dana'', le_score = 1200, le_created_at = t0 + 60\<rparr>,
           \<lparr>le_rank = 4, le_player_name = ''Charlie'', le_score = 900, le_created_at = t0 + 30\<rparr>],
        lr_total_entries = 4, lr_period = None\<rparr>"
proof -
  let ?ss = "[row 1 1 ''Alice'' 1000 (t0 + 10), row 2 1 ''Bob'' 1500 (t0 + 20),
        row 3 1 ''Charlie'' 900 (t0 + 30), row 5 1 ''Alice'' 1200 (t0 + 50),
        row 6 1 ''Dana'' 1200 (t0 + 60)]"
  have scope: "filter (in_scope 1 None) (scores tie_db) = ?ss"
    by (simp add: tie_db_eq in_scope_def row_def)
  have groups: "group_by_player ?ss
     = [\<lparr>row_player_name = ''Bob'', row_best_score = 1500, row_latest_date = t0 + 20\<rparr>,
        \<lparr>row_player_name = ''Charlie'', row_best_score = 900, row_latest_date = t0 + 30\<rparr>,
        \<lparr>row_player_name = ''Alice'', row_best_score = 1200, row_latest_date = t0 + 50\<rparr>,
        \<lparr>row_player_name = ''Dana'', row_best_score = 1200, row_latest_date = t0 + 60\<rparr>]"
    by (simp add: group_by_player_def row_def)
  have total: "total_query 1 None tie_db = 4"
    by (simp add: total_query_def scope) (simp add: row_def)
  show ?thesis
    by (simp add: get_leaderboard_Some[OF resolve_T[OF tie_games]] get_date_filter_def
          leaderboard_query_def scope groups order_by_desc_def game_T_def total
          build_entries_def enumerate_eq_zip upt_rec)
qed

end
